theory Spec2Isabelle
  imports Complex_Main
begin

section \<open>Values received from clients\<close>

text \<open>
  The repository holds two variants of the server: \<^verbatim>\<open>src/server.js\<close> (definitions with
  suffix \<open>_srv\<close>) and \<^verbatim>\<open>src/unnamed/part_000\<close> (suffix \<open>_p0\<close>). Code that is the same in
  both files (the \<^verbatim>\<open>disconnect\<close> and \<^verbatim>\<open>get_room_info\<close> handlers, the cleanup callback) is
  modelled once.

  A field of an event payload is a string or absent: \<open>None\<close> is JavaScript's
  \<^verbatim>\<open>undefined\<close>. Other JavaScript values (\<^verbatim>\<open>null\<close>, numbers, objects) in a payload are
  not modelled. A string is the list of its code units, which the model has up to
  \<^verbatim>\<open>U+00FF\<close>: a \<open>char\<close> is the code unit of that number.
\<close>

type_synonym sid = string

definition truthy :: "string option \<Rightarrow> bool" where
  \<comment> \<open>JavaScript truthiness of a string-or-undefined: \<^verbatim>\<open>undefined\<close> and \<^verbatim>\<open>''\<close> are falsy.\<close>
  "truthy v = (case v of None \<Rightarrow> False | Some x \<Rightarrow> x \<noteq> [])"

definition or_else :: "string option \<Rightarrow> string \<Rightarrow> string" where
  \<comment> \<open>\<^verbatim>\<open>v || d\<close> for a string-or-undefined \<open>v\<close> and a string \<open>d\<close>.\<close>
  "or_else v d = (case v of None \<Rightarrow> d | Some x \<Rightarrow> if x = [] then d else x)"

definition is_space :: "char \<Rightarrow> bool" where
  \<comment> \<open>The white space and line terminators that \<^verbatim>\<open>String.prototype.trim\<close> strips, among
      the code units up to \<^verbatim>\<open>U+00FF\<close>: tab, line feed, vertical tab, form feed, carriage
      return, space and the no-break space \<^verbatim>\<open>U+00A0\<close>. (\<^verbatim>\<open>U+0085\<close> is not white space for
      \<^verbatim>\<open>trim\<close>; the others it strips lie beyond \<^verbatim>\<open>U+00FF\<close>.)\<close>
  "is_space c = (c = CHR 0x09 \<or> c = CHR 0x0A \<or> c = CHR 0x0B \<or> c = CHR 0x0C
                 \<or> c = CHR 0x0D \<or> c = CHR 0x20 \<or> c = CHR 0xA0)"

definition trim :: "string \<Rightarrow> string" where
  "trim t = rev (dropWhile is_space (rev (dropWhile is_space t)))"

section \<open>The two stores\<close>

text \<open>
  \<^verbatim>\<open>userRoles: Map<socketId, { room, role, language }>\<close> and
  \<^verbatim>\<open>activeRooms: Map<roomId, { hotelName, createdAt, users: Set, guestLanguage }>\<close>.
  A \<^verbatim>\<open>Set\<close> iterates in insertion order, so \<open>users\<close> is a list: \<open>users_add\<close> appends an
  absent element, \<open>users_delete\<close> removes an element. \<^verbatim>\<open>src/server.js\<close> checks nothing
  on \<^verbatim>\<open>join_room\<close>, so a room key may be \<^verbatim>\<open>undefined\<close> there: keys are \<open>string option\<close>.
  The pending \<^verbatim>\<open>setTimeout\<close> callbacks are part of the state: each is the time at which it
  is due (milliseconds) and the room its closure captured.
\<close>

record session =
  s_room :: "string option"
  s_role :: "string option"
  s_language :: string

record room_data =
  hotelName :: string
  createdAt :: nat
  users :: "sid list"
  guestLanguage :: "string option"

record server_state =
  activeRooms :: "string option \<Rightarrow> room_data option"
  userRoles :: "sid \<Rightarrow> session option"
  timers :: "(nat \<times> string option) list"

definition users_add :: "sid \<Rightarrow> sid list \<Rightarrow> sid list" where
  "users_add c xs = (if c \<in> set xs then xs else xs @ [c])"

definition users_delete :: "sid \<Rightarrow> sid list \<Rightarrow> sid list" where
  "users_delete c xs = removeAll c xs"

definition new_room :: "nat \<Rightarrow> room_data" where
  \<comment> \<open>The object literal that \<^verbatim>\<open>join_room\<close> stores for an unknown room.\<close>
  "new_room now = \<lparr>hotelName = ''Unknown Hotel'', createdAt = now, users = [],
                   guestLanguage = None\<rparr>"

definition init_state :: server_state where
  "init_state = \<lparr>activeRooms = Map.empty, userRoles = Map.empty, timers = []\<rparr>"

section \<open>Events, and the trace of a handler\<close>

text \<open>
  The display name of a language is \<^verbatim>\<open>languageNames[l] || l\<close> on a plain object, so the
  lookup also finds the properties that every object inherits from \<^verbatim>\<open>Object.prototype\<close>:
  for such a name the value is the inherited function or object, not a string.
\<close>

datatype js_name =
    Name string
  | Inherited string
      \<comment> \<open>the property of \<^verbatim>\<open>Object.prototype\<close> with this name\<close>

record lang_text =
  lt_text :: "string option"
  lt_language :: string
  lt_languageName :: js_name

record message_data =
  m_id :: string
  m_timestamp :: string
  m_room :: "string option"
  m_speaker :: "string option"
  m_original :: lang_text
  m_translated :: lang_text
  m_confidence :: real
  m_speakerId :: sid
  m_ttsAvailable :: bool

datatype event =
    Ev_error string "string option"
      \<comment> \<open>\<^verbatim>\<open>message\<close>, \<^verbatim>\<open>error\<close>\<close>
  | Ev_room_joined "string option" "string option" js_name
      \<comment> \<open>\<^verbatim>\<open>room\<close>, \<^verbatim>\<open>role\<close>, \<^verbatim>\<open>language\<close>\<close>
  | Ev_user_joined "string option" js_name sid
      \<comment> \<open>\<^verbatim>\<open>role\<close>, \<^verbatim>\<open>language\<close>, \<^verbatim>\<open>userId\<close>\<close>
  | Ev_user_left "string option" sid
  | Ev_room_stats nat string "string option"
      \<comment> \<open>\<^verbatim>\<open>userCount\<close>, \<^verbatim>\<open>hotelName\<close>, \<^verbatim>\<open>guestLanguage\<close>\<close>
  | Ev_processing_status string "string option" "string option"
      \<comment> \<open>\<^verbatim>\<open>status\<close>, \<^verbatim>\<open>speaker\<close>, \<^verbatim>\<open>message\<close>\<close>
  | Ev_translation message_data
  | Ev_room_info string nat nat "string option"
      \<comment> \<open>\<^verbatim>\<open>hotelName\<close>, \<^verbatim>\<open>userCount\<close>, \<^verbatim>\<open>createdAt\<close>, \<^verbatim>\<open>guestLanguage\<close>\<close>

datatype target =
    ToSocket sid
      \<comment> \<open>\<^verbatim>\<open>socket.emit\<close>: the connection itself\<close>
  | ToRoom "string option"
      \<comment> \<open>\<^verbatim>\<open>io.to(room).emit\<close>: the whole room\<close>
  | ToRoomExcept "string option" sid
      \<comment> \<open>\<^verbatim>\<open>socket.to(room).emit\<close>: the room without the connection\<close>

text \<open>
  What a handler does besides writing the stores, in order: the events it emits and the
  calls it makes to the two external collaborators. An emitted event is recorded with
  the room or connection it is addressed to; the subscription table that Socket.IO keeps
  for \<^verbatim>\<open>socket.join\<close> and \<^verbatim>\<open>socket.leave\<close> is not part of the two stores and is not
  modelled, nor is the console log.
\<close>

datatype effect =
    Emit target event
  | Call_transcribeOnce string string
      \<comment> \<open>audio (the base64 text, not decoded), language\<close>
  | Call_translateText "string option" string string
      \<comment> \<open>text, source language, target language\<close>

section \<open>The collaborators and the environment of a message\<close>

text \<open>
  \<^verbatim>\<open>./speech/azure_speech\<close> and \<^verbatim>\<open>./speech/azure_translate\<close> are external: their outcome is a
  parameter, \<open>Inl\<close> a thrown value and \<open>Inr\<close> the object returned. A thrown value is
  its \<^verbatim>\<open>message\<close> property and its rendering by \<^verbatim>\<open>String\<close>. A handler is suspended
  while a collaborator runs, and other handlers may write the stores meanwhile:
  \<open>during_stt\<close> and \<open>during_translate\<close> are what they did. The confidence is a
  real number (no NaN). The message identifier and the time stamp come from the clock
  and the random generator.
\<close>

record thrown =
  err_message :: "string option"
  err_string :: string

record stt_result =
  transcript :: "string option"
  confidence :: "real option"

record tr_result =
  tr_text :: "string option"

record collab =
  transcribeOnce :: "string \<Rightarrow> string \<Rightarrow> thrown + stt_result"
  translateText :: "string option \<Rightarrow> string \<Rightarrow> string \<Rightarrow> thrown + tr_result"
  during_stt :: "server_state \<Rightarrow> server_state"
  during_translate :: "server_state \<Rightarrow> server_state"
  fresh_id :: string
  iso_now :: string

section \<open>Language registry\<close>

definition languageNames_srv :: "string \<Rightarrow> string option" where
  "languageNames_srv = map_of
     [(''hi-IN'', ''Hindi''), (''bn-IN'', ''Bengali''), (''ta-IN'', ''Tamil''),
      (''te-IN'', ''Telugu''), (''mr-IN'', ''Marathi''), (''gu-IN'', ''Gujarati''),
      (''kn-IN'', ''Kannada''), (''ml-IN'', ''Malayalam''), (''pa-IN'', ''Punjabi''),
      (''or-IN'', ''Odia''), (''od-IN'', ''Odia''), (''es-ES'', ''Spanish''),
      (''de-DE'', ''German''), (''fr-FR'', ''French''),
      (''en-IN'', ''English (India)''), (''en-US'', ''English (US)'')]"

definition languageNames_p0 :: "string \<Rightarrow> string option" where
  "languageNames_p0 = map_of
     [(''hi-IN'', ''Hindi''), (''bn-IN'', ''Bengali''), (''ta-IN'', ''Tamil''),
      (''te-IN'', ''Telugu''), (''mr-IN'', ''Marathi''), (''gu-IN'', ''Gujarati''),
      (''kn-IN'', ''Kannada''), (''ml-IN'', ''Malayalam''), (''pa-IN'', ''Punjabi''),
      (''or-IN'', ''Odia''), (''od-IN'', ''Odia''), (''en-US'', ''English''),
      (''en-IN'', ''English''), (''es-ES'', ''Spanish''), (''de-DE'', ''German''),
      (''fr-FR'', ''French'')]"

definition object_prototype_names :: "string list" where
  \<comment> \<open>The property names of \<^verbatim>\<open>Object.prototype\<close> (Node 18); each value is a function or an
      object, hence truthy.\<close>
  "object_prototype_names =
     [''constructor'', ''__defineGetter__'', ''__defineSetter__'', ''hasOwnProperty'',
      ''__lookupGetter__'', ''__lookupSetter__'', ''isPrototypeOf'', ''propertyIsEnumerable'',
      ''toString'', ''valueOf'', ''__proto__'', ''toLocaleString'']"

definition display_name :: "(string \<Rightarrow> string option) \<Rightarrow> string \<Rightarrow> js_name" where
  \<comment> \<open>\<^verbatim>\<open>names[l] || l\<close> for an object literal \<open>names\<close> whose own values are strings: an own
      property first (an empty one is falsy), then an inherited one, then \<open>l\<close> itself.\<close>
  "display_name names l =
     (case names l of
        Some n \<Rightarrow> if n = [] then Name l else Name n
      | None \<Rightarrow> if l \<in> set object_prototype_names then Inherited l else Name l)"

definition display_srv :: "string \<Rightarrow> js_name" where
  \<comment> \<open>\<^verbatim>\<open>languageNames[l] || l\<close>\<close>
  "display_srv l = display_name languageNames_srv l"

definition display_p0 :: "string \<Rightarrow> js_name" where
  "display_p0 l = display_name languageNames_p0 l"

section \<open>\<^verbatim>\<open>getGuestLanguageInRoom\<close>\<close>

text \<open>
  \<^verbatim>\<open>src/server.js\<close>, lines 58 to 68: the room's \<^verbatim>\<open>guestLanguage\<close> when truthy, else the
  stored language of the first member whose session has role \<^verbatim>\<open>guest\<close>.
\<close>

fun first_guest_language :: "(sid \<Rightarrow> session option) \<Rightarrow> sid list \<Rightarrow> string" where
  "first_guest_language roles [] = ''hi-IN''"
| "first_guest_language roles (userId # rest) =
     (case roles userId of
        None \<Rightarrow> first_guest_language roles rest
      | Some info \<Rightarrow>
          if s_role info = Some ''guest'' then or_else (Some (s_language info)) ''hi-IN''
          else first_guest_language roles rest)"

definition getGuestLanguageInRoom_srv :: "server_state \<Rightarrow> string option \<Rightarrow> string" where
  "getGuestLanguageInRoom_srv s room =
     (case activeRooms s room of
        None \<Rightarrow> ''hi-IN''
      | Some roomData \<Rightarrow>
          (case guestLanguage roomData of
             None \<Rightarrow> first_guest_language (userRoles s) (users roomData)
           | Some g \<Rightarrow>
               if g = [] then first_guest_language (userRoles s) (users roomData) else g))"

text \<open>\<^verbatim>\<open>src/unnamed/part_000\<close>, lines 70 to 73: \<^verbatim>\<open>roomData?.guestLanguage || 'hi-IN'\<close>.\<close>

definition getGuestLanguageInRoom_p0 :: "server_state \<Rightarrow> string option \<Rightarrow> string" where
  "getGuestLanguageInRoom_p0 s room =
     (case activeRooms s room of
        None \<Rightarrow> ''hi-IN''
      | Some roomData \<Rightarrow> or_else (guestLanguage roomData) ''hi-IN'')"

section \<open>\<^verbatim>\<open>join_room\<close>\<close>

definition leave_previous ::
  "sid \<Rightarrow> server_state \<Rightarrow> (string option \<Rightarrow> room_data option)" where
  \<comment> \<open>\<^verbatim>\<open>const prev = userRoles.get(socket.id)?.room; if (prev) { ... users.delete ... }\<close>,
      the same in both files.\<close>
  "leave_previous c s =
     (let prev = (case userRoles s c of None \<Rightarrow> None | Some i \<Rightarrow> s_room i)
      in if truthy prev then
           (case activeRooms s prev of
              None \<Rightarrow> activeRooms s
            | Some pd \<Rightarrow> (activeRooms s)(prev \<mapsto> pd\<lparr>users := users_delete c (users pd)\<rparr>))
         else activeRooms s)"

text \<open>
  \<^verbatim>\<open>src/server.js\<close>, lines 113 to 151. \<open>now\<close> is \<^verbatim>\<open>new Date()\<close>. The default
  \<^verbatim>\<open>language = 'hi-IN'\<close> of the destructuring applies to \<^verbatim>\<open>undefined\<close> only.
\<close>

definition join_room_srv ::
  "nat \<Rightarrow> sid \<Rightarrow> string option \<Rightarrow> string option \<Rightarrow> string option \<Rightarrow> server_state
   \<Rightarrow> server_state \<times> effect list" where
  "join_room_srv now c room role language0 s =
     (let language = (case language0 of None \<Rightarrow> ''hi-IN'' | Some l \<Rightarrow> l);
          rooms1 = leave_previous c s;
          userLanguage = (if role = Some ''receptionist'' then ''en-US'' else language);
          roles1 = (userRoles s)(c \<mapsto> \<lparr>s_room = room, s_role = role, s_language = userLanguage\<rparr>);
          rd0 = (case rooms1 room of None \<Rightarrow> new_room now | Some r \<Rightarrow> r);
          rd1 = rd0\<lparr>users := users_add c (users rd0)\<rparr>;
          rd = (if role = Some ''guest'' then rd1\<lparr>guestLanguage := Some userLanguage\<rparr> else rd1)
      in (s\<lparr>activeRooms := rooms1(room \<mapsto> rd), userRoles := roles1\<rparr>,
          [Emit (ToSocket c) (Ev_room_joined room role (display_srv userLanguage)),
           Emit (ToRoomExcept room c) (Ev_user_joined role (display_srv userLanguage) c),
           Emit (ToRoom room)
             (Ev_room_stats (length (users rd)) (hotelName rd) (guestLanguage rd))]))"

text \<open>\<^verbatim>\<open>src/unnamed/part_000\<close>, lines 127 to 184.\<close>

definition join_room_p0 ::
  "nat \<Rightarrow> sid \<Rightarrow> string option \<Rightarrow> string option \<Rightarrow> string option \<Rightarrow> server_state
   \<Rightarrow> server_state \<times> effect list" where
  "join_room_p0 now c room role language s =
     (if \<not> truthy room \<or> \<not> truthy role then
        (s, [Emit (ToSocket c) (Ev_error ''Missing room/role'' None)])
      else
        let rooms1 = leave_previous c s;
            rd0 = (case rooms1 room of None \<Rightarrow> new_room now | Some r \<Rightarrow> r);
            lang = (if role = Some ''receptionist'' then or_else language ''en-US''
                    else or_else language ''hi-IN'');
            roles1 = (userRoles s)(c \<mapsto> \<lparr>s_room = room, s_role = role, s_language = lang\<rparr>);
            rd1 = rd0\<lparr>users := users_add c (users rd0)\<rparr>;
            roomData = (if role = Some ''guest'' then rd1\<lparr>guestLanguage := Some lang\<rparr> else rd1)
        in (s\<lparr>activeRooms := rooms1(room \<mapsto> roomData), userRoles := roles1\<rparr>,
            [Emit (ToSocket c) (Ev_room_joined room role (display_p0 lang)),
             Emit (ToRoom room)
               (Ev_room_stats (length (users roomData)) (hotelName roomData)
                  (guestLanguage roomData)),
             Emit (ToRoomExcept room c) (Ev_user_joined role (display_p0 lang) c)]))"

section \<open>\<^verbatim>\<open>disconnect\<close> and the deferred cleanup\<close>

definition cleanup_delay :: nat where
  "cleanup_delay = 5 * 60 * 1000"

text \<open>
  \<^verbatim>\<open>src/server.js\<close>, lines 271 to 295, and \<^verbatim>\<open>src/unnamed/part_000\<close>, lines 319 to 349 (the
  same statements). \<open>now\<close> is the clock when the handler runs; \<^verbatim>\<open>setTimeout\<close> appends
  a callback due \<open>cleanup_delay\<close> later.
\<close>

definition disconnect :: "nat \<Rightarrow> sid \<Rightarrow> server_state \<Rightarrow> server_state \<times> effect list" where
  "disconnect now c s =
     (case userRoles s c of
        None \<Rightarrow> (s, [])
      | Some info \<Rightarrow>
          let room = s_room info; role = s_role info
          in (case activeRooms s room of
                None \<Rightarrow> (s\<lparr>userRoles := (userRoles s)(c := None)\<rparr>, [])
              | Some rd0 \<Rightarrow>
                  let rd1 = rd0\<lparr>users := users_delete c (users rd0)\<rparr>;
                      rd = (if role = Some ''guest'' then rd1\<lparr>guestLanguage := None\<rparr> else rd1);
                      timers1 = (if length (users rd) = 0
                                 then timers s @ [(now + cleanup_delay, room)] else timers s)
                  in (s\<lparr>activeRooms := (activeRooms s)(room \<mapsto> rd),
                        userRoles := (userRoles s)(c := None), timers := timers1\<rparr>,
                      [Emit (ToRoomExcept room c) (Ev_user_left role c),
                       Emit (ToRoom room)
                         (Ev_room_stats (length (users rd)) (hotelName rd) (guestLanguage rd))])))"

text \<open>The callback given to \<^verbatim>\<open>setTimeout\<close>, for the room its closure holds.\<close>

definition cleanup_room :: "string option \<Rightarrow> server_state \<Rightarrow> server_state" where
  "cleanup_room room s =
     (case activeRooms s room of
        None \<Rightarrow> s
      | Some rdx \<Rightarrow>
          if length (users rdx) = 0 then s\<lparr>activeRooms := (activeRooms s)(room := None)\<rparr>
          else s)"

text \<open>
  The timer phase of the event loop at clock \<open>now\<close>: the callbacks that are due run in
  the order they were scheduled and leave the queue; the others stay.
\<close>

definition run_timers :: "nat \<Rightarrow> server_state \<Rightarrow> server_state" where
  "run_timers now s =
     foldl (\<lambda>s' t. cleanup_room (snd t) s')
       (s\<lparr>timers := filter (\<lambda>t. now < fst t) (timers s)\<rparr>)
       (filter (\<lambda>t. fst t \<le> now) (timers s))"

section \<open>\<^verbatim>\<open>get_room_info\<close>\<close>

text \<open>
  \<^verbatim>\<open>src/server.js\<close>, lines 259 to 269, and \<^verbatim>\<open>src/unnamed/part_000\<close>, lines 307 to 317 (the
  same statements).
\<close>

definition get_room_info :: "sid \<Rightarrow> string option \<Rightarrow> server_state \<Rightarrow> server_state \<times> effect list" where
  "get_room_info c room s =
     (case activeRooms s room of
        None \<Rightarrow> (s, [])
      | Some rd \<Rightarrow>
          (s, [Emit (ToSocket c)
                 (Ev_room_info (hotelName rd) (length (users rd)) (createdAt rd)
                    (guestLanguage rd))]))"

section \<open>The message pipeline of \<^verbatim>\<open>src/server.js\<close>\<close>

definition catch_srv :: "string \<Rightarrow> sid \<Rightarrow> thrown \<Rightarrow> server_state \<Rightarrow> effect list" where
  \<comment> \<open>The \<^verbatim>\<open>catch\<close> blocks, lines 208 to 214 and 252 to 256; \<open>s\<close> is the state when the
      exception arrives.\<close>
  "catch_srv handler c err s =
     [Emit (ToSocket c) (Ev_error (''Failed to process '' @ handler) (err_message err)),
      Emit (ToRoom (Some (or_else (case userRoles s c of None \<Rightarrow> None | Some i \<Rightarrow> s_room i) [])))
        (Ev_processing_status ''error'' None (err_message err))]"

definition nullish_or :: "real option \<Rightarrow> real \<Rightarrow> real" where
  \<comment> \<open>\<^verbatim>\<open>v ?? d\<close>\<close>
  "nullish_or v d = (case v of None \<Rightarrow> d | Some x \<Rightarrow> x)"

text \<open>Lines 153 to 215.\<close>

definition audio_message_srv ::
  "collab \<Rightarrow> sid \<Rightarrow> string option \<Rightarrow> string option \<Rightarrow> string option \<Rightarrow> string option
   \<Rightarrow> server_state \<Rightarrow> server_state \<times> effect list" where
  "audio_message_srv env c room role language audioData s0 =
     (case userRoles s0 c of
        None \<Rightarrow> (s0, [Emit (ToSocket c) (Ev_error ''Not authorized for this room'' None)])
      | Some info \<Rightarrow>
          if s_room info \<noteq> room then
            (s0, [Emit (ToSocket c) (Ev_error ''Not authorized for this room'' None)])
          else
            let audioBuffer = or_else audioData [];
                sttLang = or_else language (s_language info);
                started = [Emit (ToRoom room) (Ev_processing_status ''transcribing'' role None),
                           Call_transcribeOnce audioBuffer sttLang];
                s1 = during_stt env s0
            in (case transcribeOnce env audioBuffer sttLang of
                  Inl err \<Rightarrow> (s1, started @ catch_srv ''audio_message'' c err s1)
                | Inr transcription \<Rightarrow>
                    if \<not> truthy (transcript transcription)
                       \<or> trim (or_else (transcript transcription) []) = []
                    then (s1, started @
                            [Emit (ToRoom room)
                               (Ev_processing_status ''error'' None (Some ''No speech detected''))])
                    else
                      let sourceLanguage = (if role = Some ''guest''
                                            then or_else language (s_language info) else ''en-US'');
                          targetLanguage = (if role = Some ''guest'' then ''en-US''
                                            else getGuestLanguageInRoom_srv s1 room);
                          translating = started @
                            [Emit (ToRoom room) (Ev_processing_status ''translating'' role None),
                             Call_translateText (transcript transcription) sourceLanguage
                               targetLanguage];
                          s2 = during_translate env s1
                      in (case translateText env (transcript transcription) sourceLanguage
                                 targetLanguage of
                            Inl err \<Rightarrow> (s2, translating @ catch_srv ''audio_message'' c err s2)
                          | Inr translation \<Rightarrow>
                              (s2, translating @
                                 [Emit (ToRoom room) (Ev_translation
                                    \<lparr>m_id = fresh_id env, m_timestamp = iso_now env,
                                     m_room = room, m_speaker = role,
                                     m_original =
                                       \<lparr>lt_text = transcript transcription,
                                        lt_language = sourceLanguage,
                                        lt_languageName = display_srv sourceLanguage\<rparr>,
                                     m_translated =
                                       \<lparr>lt_text = tr_text translation,
                                        lt_language = targetLanguage,
                                        lt_languageName = display_srv targetLanguage\<rparr>,
                                     m_confidence = nullish_or (confidence transcription) 0.95,
                                     m_speakerId = c, m_ttsAvailable = False\<rparr>),
                                  Emit (ToRoom room)
                                    (Ev_processing_status ''complete'' None None)]))))"

text \<open>Lines 217 to 257.\<close>

definition text_message_srv ::
  "collab \<Rightarrow> sid \<Rightarrow> string option \<Rightarrow> string option \<Rightarrow> string option \<Rightarrow> string option
   \<Rightarrow> server_state \<Rightarrow> server_state \<times> effect list" where
  "text_message_srv env c room role language text0 s0 =
     (case userRoles s0 c of
        None \<Rightarrow> (s0, [Emit (ToSocket c) (Ev_error ''Not authorized for this room'' None)])
      | Some info \<Rightarrow>
          if s_room info \<noteq> room then
            (s0, [Emit (ToSocket c) (Ev_error ''Not authorized for this room'' None)])
          else
            let sourceLanguage = (if role = Some ''guest''
                                  then or_else language (s_language info) else ''en-US'');
                targetLanguage = (if role = Some ''guest'' then ''en-US''
                                  else getGuestLanguageInRoom_srv s0 room);
                translating =
                  [Emit (ToRoom room) (Ev_processing_status ''translating'' role None),
                   Call_translateText text0 sourceLanguage targetLanguage];
                s1 = during_translate env s0
            in (case translateText env text0 sourceLanguage targetLanguage of
                  Inl err \<Rightarrow> (s1, translating @ catch_srv ''text_message'' c err s1)
                | Inr translation \<Rightarrow>
                    (s1, translating @
                       [Emit (ToRoom room) (Ev_translation
                          \<lparr>m_id = fresh_id env, m_timestamp = iso_now env,
                           m_room = room, m_speaker = role,
                           m_original =
                             \<lparr>lt_text = text0, lt_language = sourceLanguage,
                              lt_languageName = display_srv sourceLanguage\<rparr>,
                           m_translated =
                             \<lparr>lt_text = tr_text translation, lt_language = targetLanguage,
                              lt_languageName = display_srv targetLanguage\<rparr>,
                           m_confidence = 1.0,
                           m_speakerId = c, m_ttsAvailable = False\<rparr>),
                        Emit (ToRoom room) (Ev_processing_status ''complete'' None None)])))"

section \<open>The message pipeline of \<^verbatim>\<open>src/unnamed/part_000\<close>\<close>

definition err_text :: "thrown \<Rightarrow> string" where
  \<comment> \<open>\<^verbatim>\<open>String(err?.message || err)\<close>\<close>
  "err_text err = or_else (err_message err) (err_string err)"

definition catch_p0 :: "string \<Rightarrow> sid \<Rightarrow> thrown \<Rightarrow> server_state \<Rightarrow> effect list" where
  \<comment> \<open>The \<^verbatim>\<open>catch\<close> blocks, lines 247 to 252 and 299 to 304.\<close>
  "catch_p0 what c err s =
     Emit (ToSocket c) (Ev_error (''Failed to process '' @ what) (Some (err_text err)))
     # (let room = (case userRoles s c of None \<Rightarrow> None | Some i \<Rightarrow> s_room i)
        in if truthy room
           then [Emit (ToRoom room) (Ev_processing_status ''error'' None (Some (err_text err)))]
           else [])"

definition falsy_or :: "real option \<Rightarrow> real \<Rightarrow> real" where
  \<comment> \<open>\<^verbatim>\<open>v || d\<close> for a number-or-undefined \<open>v\<close>: \<^verbatim>\<open>undefined\<close> and \<^verbatim>\<open>0\<close> are falsy.\<close>
  "falsy_or v d = (case v of None \<Rightarrow> d | Some x \<Rightarrow> if x = 0 then d else x)"

text \<open>Lines 186 to 253.\<close>

definition audio_message_p0 ::
  "collab \<Rightarrow> sid \<Rightarrow> string option \<Rightarrow> string option \<Rightarrow> string option \<Rightarrow> string option
   \<Rightarrow> server_state \<Rightarrow> server_state \<times> effect list" where
  "audio_message_p0 env c room role language audioData s0 =
     (case userRoles s0 c of
        None \<Rightarrow> (s0, [Emit (ToSocket c) (Ev_error ''Not authorized for this room'' None)])
      | Some userInfo \<Rightarrow>
          if s_room userInfo \<noteq> room then
            (s0, [Emit (ToSocket c) (Ev_error ''Not authorized for this room'' None)])
          else
            let audioBuffer = or_else audioData [];
                sttLang = (if role = Some ''guest'' then or_else language (s_language userInfo)
                           else ''en-US'');
                started = [Emit (ToRoom room) (Ev_processing_status ''transcribing'' role None),
                           Call_transcribeOnce audioBuffer sttLang];
                s1 = during_stt env s0
            in (case transcribeOnce env audioBuffer sttLang of
                  Inl err \<Rightarrow> (s1, started @ catch_p0 ''audio message'' c err s1)
                | Inr stt \<Rightarrow>
                    let transcript1 = trim (or_else (transcript stt) [])
                    in if transcript1 = [] then
                         (s1, started @
                            [Emit (ToRoom room)
                               (Ev_processing_status ''error'' None (Some ''No speech detected''))])
                       else
                         let sourceLanguage = (if role = Some ''guest'' then sttLang else ''en-US'');
                             targetLanguage = (if role = Some ''guest'' then ''en-US''
                                               else getGuestLanguageInRoom_p0 s1 room);
                             translating = started @
                               [Emit (ToRoom room) (Ev_processing_status ''translating'' role None),
                                Call_translateText (Some transcript1) sourceLanguage targetLanguage];
                             s2 = during_translate env s1
                         in (case translateText env (Some transcript1) sourceLanguage
                                    targetLanguage of
                               Inl err \<Rightarrow> (s2, translating @ catch_p0 ''audio message'' c err s2)
                             | Inr tr \<Rightarrow>
                                 (s2, translating @
                                    [Emit (ToRoom room) (Ev_translation
                                       \<lparr>m_id = fresh_id env, m_timestamp = iso_now env,
                                        m_room = room, m_speaker = role,
                                        m_original =
                                          \<lparr>lt_text = Some transcript1,
                                           lt_language = sourceLanguage,
                                           lt_languageName = display_p0 sourceLanguage\<rparr>,
                                        m_translated =
                                          \<lparr>lt_text = Some (or_else (tr_text tr) []),
                                           lt_language = targetLanguage,
                                           lt_languageName = display_p0 targetLanguage\<rparr>,
                                        m_confidence = falsy_or (confidence stt) 0.95,
                                        m_speakerId = c, m_ttsAvailable = False\<rparr>),
                                     Emit (ToRoom room)
                                       (Ev_processing_status ''complete'' None None)]))))"

text \<open>Lines 255 to 305.\<close>

definition text_message_p0 ::
  "collab \<Rightarrow> sid \<Rightarrow> string option \<Rightarrow> string option \<Rightarrow> string option \<Rightarrow> string option
   \<Rightarrow> server_state \<Rightarrow> server_state \<times> effect list" where
  "text_message_p0 env c room role language text0 s0 =
     (case userRoles s0 c of
        None \<Rightarrow> (s0, [Emit (ToSocket c) (Ev_error ''Not authorized for this room'' None)])
      | Some userInfo \<Rightarrow>
          if s_room userInfo \<noteq> room then
            (s0, [Emit (ToSocket c) (Ev_error ''Not authorized for this room'' None)])
          else
            let sourceLanguage = (if role = Some ''guest''
                                  then or_else language (s_language userInfo) else ''en-US'');
                targetLanguage = (if role = Some ''guest'' then ''en-US''
                                  else getGuestLanguageInRoom_p0 s0 room);
                translating =
                  [Emit (ToRoom room) (Ev_processing_status ''translating'' role None),
                   Call_translateText text0 sourceLanguage targetLanguage];
                s1 = during_translate env s0
            in (case translateText env text0 sourceLanguage targetLanguage of
                  Inl err \<Rightarrow> (s1, translating @ catch_p0 ''text message'' c err s1)
                | Inr tr \<Rightarrow>
                    (s1, translating @
                       [Emit (ToRoom room) (Ev_translation
                          \<lparr>m_id = fresh_id env, m_timestamp = iso_now env,
                           m_room = room, m_speaker = role,
                           m_original =
                             \<lparr>lt_text = text0, lt_language = sourceLanguage,
                              lt_languageName = display_p0 sourceLanguage\<rparr>,
                           m_translated =
                             \<lparr>lt_text = Some (or_else (tr_text tr) []),
                              lt_language = targetLanguage,
                              lt_languageName = display_p0 targetLanguage\<rparr>,
                           m_confidence = 1.0,
                           m_speakerId = c, m_ttsAvailable = False\<rparr>),
                        Emit (ToRoom room) (Ev_processing_status ''complete'' None None)])))"

section \<open>Sequences of \<^verbatim>\<open>join_room\<close> events, and the consistency of the two stores\<close>

datatype join_event = Join nat sid "string option" "string option" "string option"
  \<comment> \<open>clock, connection, \<^verbatim>\<open>room\<close>, \<^verbatim>\<open>role\<close>, \<^verbatim>\<open>language\<close>\<close>

fun run_joins_srv :: "join_event list \<Rightarrow> server_state \<Rightarrow> server_state" where
  "run_joins_srv [] s = s"
| "run_joins_srv (Join now c room role language # evs) s =
     run_joins_srv evs (fst (join_room_srv now c room role language s))"

fun run_joins_p0 :: "join_event list \<Rightarrow> server_state \<Rightarrow> server_state" where
  "run_joins_p0 [] s = s"
| "run_joins_p0 (Join now c room role language # evs) s =
     run_joins_p0 evs (fst (join_room_p0 now c room role language s))"

definition members_of :: "server_state \<Rightarrow> string option \<Rightarrow> sid list" where
  \<comment> \<open>The member set of a room; empty for a room that is not in the store.\<close>
  "members_of s room = (case activeRooms s room of None \<Rightarrow> [] | Some rd \<Rightarrow> users rd)"

definition session_room :: "server_state \<Rightarrow> sid \<Rightarrow> string option option" where
  \<comment> \<open>The room a connection's session names, if the connection has a session.\<close>
  "session_room s c = map_option s_room (userRoles s c)"

definition members_consistent :: "server_state \<Rightarrow> bool" where
  \<comment> \<open>Every room's member set is the set of connections whose session names the room.\<close>
  "members_consistent s =
     (\<forall>room rd. activeRooms s room = Some rd \<longrightarrow>
        set (users rd) = {c. session_room s c = Some room})"

definition sessions_have_rooms :: "server_state \<Rightarrow> bool" where
  "sessions_have_rooms s =
     (\<forall>c i. userRoles s c = Some i \<longrightarrow> truthy (s_room i) \<and> activeRooms s (s_room i) \<noteq> None)"

section \<open>What the claims speak of\<close>

definition session_language :: "server_state \<Rightarrow> sid \<Rightarrow> string option" where
  \<comment> \<open>The language stored in a connection's session, if it has one.\<close>
  "session_language s c = map_option s_language (userRoles s c)"

definition session_role :: "server_state \<Rightarrow> sid \<Rightarrow> string option option" where
  "session_role s c = map_option s_role (userRoles s c)"

definition resolved_guest_language :: "server_state \<Rightarrow> string option \<Rightarrow> string option" where
  \<comment> \<open>The \<^verbatim>\<open>guestLanguage\<close> of a room; \<open>None\<close> is \<^verbatim>\<open>null\<close>, or no such room.\<close>
  "resolved_guest_language s room =
     (case activeRooms s room of None \<Rightarrow> None | Some rd \<Rightarrow> guestLanguage rd)"

definition guest_members :: "server_state \<Rightarrow> string option \<Rightarrow> sid list" where
  \<comment> \<open>The members of a room whose session has role \<^verbatim>\<open>guest\<close>, in the order of the set.\<close>
  "guest_members s room =
     filter (\<lambda>c. session_role s c = Some (Some ''guest'')) (members_of s room)"

definition blank_transcript :: "stt_result \<Rightarrow> bool" where
  \<comment> \<open>A transcript that is absent, or empty after trimming.\<close>
  "blank_transcript r = (case transcript r of None \<Rightarrow> True | Some t \<Rightarrow> trim t = [])"


fun translation_events :: "effect list \<Rightarrow> message_data list" where
  \<comment> \<open>The payloads of the \<^verbatim>\<open>translation\<close> events of a trace.\<close>
  "translation_events [] = []"
| "translation_events (Emit tg (Ev_translation m) # es) = m # translation_events es"
| "translation_events (e # es) = translation_events es"

fun translate_calls :: "effect list \<Rightarrow> (string option \<times> string \<times> string) list" where
  \<comment> \<open>The calls of the translation collaborator in a trace: text, source, target.\<close>
  "translate_calls [] = []"
| "translate_calls (Call_translateText t src tgt # es) = (t, src, tgt) # translate_calls es"
| "translate_calls (e # es) = translate_calls es"




section \<open>Concrete collaborators and states\<close>

definition quiet :: collab where
  \<comment> \<open>Both collaborators succeed and nothing else runs while they do.\<close>
  "quiet = \<lparr>transcribeOnce = (\<lambda>audio lang. Inr \<lparr>transcript = Some ''Hello'', confidence = Some 0.8\<rparr>),
            translateText = (\<lambda>t src tgt. Inr \<lparr>tr_text = Some ''Namaste''\<rparr>),
            during_stt = (\<lambda>s. s), during_translate = (\<lambda>s. s),
            fresh_id = ''msg_1_abc'', iso_now = ''2025-01-01T00:00:00.000Z''\<rparr>"

definition silence :: collab where
  \<comment> \<open>The transcription returns white space only: a space and a no-break space.\<close>
  "silence = quiet\<lparr>transcribeOnce := (\<lambda>audio lang. Inr \<lparr>transcript = Some [CHR 0x20, CHR 0xA0], confidence = None\<rparr>)\<rparr>"

definition unsure :: collab where
  \<comment> \<open>The transcription returns a transcript with confidence 0.\<close>
  "unsure = quiet\<lparr>transcribeOnce := (\<lambda>audio lang. Inr \<lparr>transcript = Some ''Hello'', confidence = Some 0\<rparr>)\<rparr>"


definition lobby_p0 :: server_state where
  \<comment> \<open>A guest with Bengali, then a receptionist, in room \<open>R\<close>.\<close>
  "lobby_p0 = run_joins_p0
     [Join 10 ''g1'' (Some ''R'') (Some ''guest'') (Some ''bn-IN''),
      Join 20 ''r1'' (Some ''R'') (Some ''receptionist'') None] init_state"

definition lobby_srv :: server_state where
  "lobby_srv = run_joins_srv
     [Join 10 ''g1'' (Some ''R'') (Some ''guest'') (Some ''bn-IN''),
      Join 20 ''r1'' (Some ''R'') (Some ''receptionist'') None] init_state"

definition two_guests_srv :: server_state where
  \<comment> \<open>Two guests and a receptionist in room \<open>R\<close>.\<close>
  "two_guests_srv = run_joins_srv
     [Join 10 ''g1'' (Some ''R'') (Some ''guest'') (Some ''bn-IN''),
      Join 15 ''g2'' (Some ''R'') (Some ''guest'') (Some ''ta-IN''),
      Join 20 ''r1'' (Some ''R'') (Some ''receptionist'') None] init_state"

definition emptied :: server_state where
  \<comment> \<open>The guest, then the receptionist, leave room \<open>R\<close>, at clock 30 and 40.\<close>
  "emptied = fst (disconnect 40 ''r1'' (fst (disconnect 30 ''g1'' lobby_p0)))"

definition rejoined :: server_state where
  \<comment> \<open>The guest comes back at clock 100, before the cleanup is due.\<close>
  "rejoined = fst (join_room_p0 100 ''g1'' (Some ''R'') (Some ''guest'') None emptied)"

definition one_guest_left :: server_state where
  \<comment> \<open>Of two guests, the one who joined last leaves.\<close>
  "one_guest_left = fst (disconnect 30 ''g2'' two_guests_srv)"

definition guest_left_p0 :: server_state where
  \<comment> \<open>The only guest leaves.\<close>
  "guest_left_p0 = fst (disconnect 30 ''g1'' lobby_p0)"



definition stray_srv :: server_state where
  \<comment> \<open>One connection joins the room with the empty name, then room \<open>B\<close>.\<close>
  "stray_srv = run_joins_srv
     [Join 10 ''c1'' (Some '''') (Some ''guest'') None,
      Join 20 ''c1'' (Some ''B'') (Some ''guest'') None] init_state"

definition stray_unnamed_srv :: server_state where
  \<comment> \<open>The same with a first \<^verbatim>\<open>join_room\<close> that carries no room.\<close>
  "stray_unnamed_srv = run_joins_srv
     [Join 10 ''c1'' None (Some ''guest'') None,
      Join 20 ''c1'' (Some ''B'') (Some ''guest'') None] init_state"

definition stray_p0 :: server_state where
  "stray_p0 = run_joins_p0
     [Join 10 ''c1'' (Some '''') (Some ''guest'') None,
      Join 20 ''c1'' (Some ''B'') (Some ''guest'') None] init_state"

definition moved_away :: server_state where
  \<comment> \<open>After the guest has left, the receptionist, the last member of \<open>R\<close>, joins room
      \<open>S\<close>.\<close>
  "moved_away = fst (join_room_p0 50 ''r1'' (Some ''S'') (Some ''receptionist'') None guest_left_p0)"

section \<open>The concrete states, evaluated\<close>

lemmas join_defs = join_room_p0_def join_room_srv_def truthy_def or_else_def leave_previous_def
  Let_def new_room_def users_add_def users_delete_def init_state_def

lemma lobby_p0_rooms:
  "activeRooms lobby_p0 =
     [Some ''R'' \<mapsto> \<lparr>hotelName = ''Unknown Hotel'', createdAt = 10, users = [''g1'', ''r1''],
                     guestLanguage = Some ''bn-IN''\<rparr>]"
  by (simp add: lobby_p0_def join_defs)

lemma lobby_p0_roles:
  "userRoles lobby_p0 =
     [''g1'' \<mapsto> \<lparr>s_room = Some ''R'', s_role = Some ''guest'', s_language = ''bn-IN''\<rparr>,
      ''r1'' \<mapsto> \<lparr>s_room = Some ''R'', s_role = Some ''receptionist'', s_language = ''en-US''\<rparr>]"
  by (simp add: lobby_p0_def join_defs)

lemma lobby_p0_timers: "timers lobby_p0 = []"
  by (simp add: lobby_p0_def join_defs)

lemma lobby_srv_rooms:
  "activeRooms lobby_srv =
     [Some ''R'' \<mapsto> \<lparr>hotelName = ''Unknown Hotel'', createdAt = 10, users = [''g1'', ''r1''],
                     guestLanguage = Some ''bn-IN''\<rparr>]"
  by (simp add: lobby_srv_def join_defs)

lemma lobby_srv_roles:
  "userRoles lobby_srv =
     [''g1'' \<mapsto> \<lparr>s_room = Some ''R'', s_role = Some ''guest'', s_language = ''bn-IN''\<rparr>,
      ''r1'' \<mapsto> \<lparr>s_room = Some ''R'', s_role = Some ''receptionist'', s_language = ''en-US''\<rparr>]"
  by (simp add: lobby_srv_def join_defs)

lemma lobby_srv_timers: "timers lobby_srv = []"
  by (simp add: lobby_srv_def join_defs)

lemma guest_left_p0_rooms:
  "activeRooms guest_left_p0 =
     [Some ''R'' \<mapsto> \<lparr>hotelName = ''Unknown Hotel'', createdAt = 10,
                     users = [''r1''], guestLanguage = None\<rparr>]"
  by (simp add: guest_left_p0_def disconnect_def lobby_p0_rooms lobby_p0_roles
        users_delete_def Let_def)

lemma guest_left_p0_roles:
  "userRoles guest_left_p0 =
     [''r1'' \<mapsto> \<lparr>s_room = Some ''R'', s_role = Some ''receptionist'', s_language = ''en-US''\<rparr>]"
  by (simp add: guest_left_p0_def disconnect_def lobby_p0_rooms lobby_p0_roles
        users_delete_def Let_def fun_eq_iff)

section \<open>Unauthorised messages\<close>

text \<open>
  Claim C2. An \<^verbatim>\<open>audio_message\<close> or \<^verbatim>\<open>text_message\<close> from a connection that has no
  session, or whose session names another room than the message declares, does one thing
  in either server: it sends the sender a private \<^verbatim>\<open>error\<close> event. Nothing is sent to the
  declared room (the trace holds no other effect, and no collaborator is called), and
  the Session Store and the Room Store are the ones the handler found.
\<close>

theorem unauthorized_message_private_error:
  assumes "session_room s c \<noteq> Some room"
  shows "audio_message_srv env c room role language audioData s
           = (s, [Emit (ToSocket c) (Ev_error ''Not authorized for this room'' None)])
       \<and> text_message_srv env c room role language text0 s
           = (s, [Emit (ToSocket c) (Ev_error ''Not authorized for this room'' None)])
       \<and> audio_message_p0 env c room role language audioData s
           = (s, [Emit (ToSocket c) (Ev_error ''Not authorized for this room'' None)])
       \<and> text_message_p0 env c room role language text0 s
           = (s, [Emit (ToSocket c) (Ev_error ''Not authorized for this room'' None)])"
  using assms
  by (auto simp: session_room_def audio_message_srv_def text_message_srv_def
        audio_message_p0_def text_message_p0_def split: option.splits)

theorem unauthorized_message_private_error_witness:
  "session_room lobby_p0 ''g1'' = Some (Some ''R'')
   \<and> audio_message_srv quiet ''g1'' (Some ''Q'') (Some ''guest'') None (Some ''AAAA'') lobby_p0
       = (lobby_p0, [Emit (ToSocket ''g1'') (Ev_error ''Not authorized for this room'' None)])
   \<and> text_message_srv quiet ''g1'' (Some ''Q'') (Some ''guest'') None (Some ''hello'') lobby_p0
       = (lobby_p0, [Emit (ToSocket ''g1'') (Ev_error ''Not authorized for this room'' None)])
   \<and> audio_message_p0 quiet ''g1'' (Some ''Q'') (Some ''guest'') None (Some ''AAAA'') lobby_p0
       = (lobby_p0, [Emit (ToSocket ''g1'') (Ev_error ''Not authorized for this room'' None)])
   \<and> text_message_p0 quiet ''g1'' (Some ''Q'') (Some ''guest'') None (Some ''hello'') lobby_p0
       = (lobby_p0, [Emit (ToSocket ''g1'') (Ev_error ''Not authorized for this room'' None)])"
proof -
  have r: "session_room lobby_p0 ''g1'' = Some (Some ''R'')"
    by (simp add: session_room_def lobby_p0_roles)
  then have h: "session_room lobby_p0 ''g1'' \<noteq> Some (Some ''Q'')"
    by simp
  show ?thesis
    using r unauthorized_message_private_error [OF h, of quiet "Some ''guest''" None "Some ''AAAA''"
        "Some ''hello''"]
    by simp
qed

section \<open>Room information\<close>

text \<open>
  Claim C10. \<^verbatim>\<open>get_room_info\<close> never writes the stores, and for a room identity that
  is not in the Room Store it emits nothing at all: neither \<^verbatim>\<open>room_info\<close> nor \<^verbatim>\<open>error\<close>.
\<close>

theorem get_room_info_silent_and_read_only:
  "fst (get_room_info c room s) = s
   \<and> (activeRooms s room = None \<longrightarrow> snd (get_room_info c room s) = [])"
  by (simp add: get_room_info_def split: option.split)

theorem get_room_info_silent_and_read_only_witness:
  "activeRooms lobby_p0 (Some ''Q'') = None
   \<and> fst (get_room_info ''g1'' (Some ''Q'') lobby_p0) = lobby_p0
   \<and> snd (get_room_info ''g1'' (Some ''Q'') lobby_p0) = []
   \<and> fst (get_room_info ''g1'' (Some ''R'') lobby_p0) = lobby_p0"
  using get_room_info_silent_and_read_only [of "''g1''" "Some ''Q''" lobby_p0]
    get_room_info_silent_and_read_only [of "''g1''" "Some ''R''" lobby_p0]
  by (simp add: lobby_p0_rooms)

section \<open>Empty transcripts\<close>

lemma blank_transcript_srv:
  "blank_transcript r \<Longrightarrow> \<not> truthy (transcript r) \<or> trim (or_else (transcript r) []) = []"
  by (auto simp: blank_transcript_def truthy_def or_else_def split: option.splits)

lemma blank_transcript_p0: "blank_transcript r \<Longrightarrow> trim (or_else (transcript r) []) = []"
  by (auto simp: blank_transcript_def or_else_def trim_def split: option.splits)

text \<open>
  Claim C6. When the sender is authorised and the transcription returns a transcript that
  is absent or empty after trimming (white space includes the no-break space, as for
  \<^verbatim>\<open>String.prototype.trim\<close>), the whole trace of \<^verbatim>\<open>audio_message\<close> is: the
  \<^verbatim>\<open>transcribing\<close> status, the call of the transcription, and a \<^verbatim>\<open>processing_status\<close> to the
  room with status \<^verbatim>\<open>error\<close> and message \<^verbatim>\<open>No speech detected\<close>. So the translation is
  never called and no \<^verbatim>\<open>translation\<close> event is sent. The two servers differ only in the
  language they pass to the transcription.
\<close>

theorem empty_transcript_stops_pipeline:
  assumes "userRoles s c = Some info" and "s_room info = room"
  shows "(transcribeOnce env (or_else audioData []) (or_else language (s_language info)) = Inr r
          \<and> blank_transcript r \<longrightarrow>
          snd (audio_message_srv env c room role language audioData s) =
            [Emit (ToRoom room) (Ev_processing_status ''transcribing'' role None),
             Call_transcribeOnce (or_else audioData []) (or_else language (s_language info)),
             Emit (ToRoom room) (Ev_processing_status ''error'' None (Some ''No speech detected''))])
       \<and> (transcribeOnce env (or_else audioData [])
             (if role = Some ''guest'' then or_else language (s_language info) else ''en-US'') = Inr r'
          \<and> blank_transcript r' \<longrightarrow>
          snd (audio_message_p0 env c room role language audioData s) =
            [Emit (ToRoom room) (Ev_processing_status ''transcribing'' role None),
             Call_transcribeOnce (or_else audioData [])
               (if role = Some ''guest'' then or_else language (s_language info) else ''en-US''),
             Emit (ToRoom room) (Ev_processing_status ''error'' None (Some ''No speech detected''))])"
proof (intro conjI impI)
  assume a: "transcribeOnce env (or_else audioData []) (or_else language (s_language info)) = Inr r
          \<and> blank_transcript r"
  then have "\<not> truthy (transcript r) \<or> trim (or_else (transcript r) []) = []"
    using blank_transcript_srv [of r] by blast
  with a assms show "snd (audio_message_srv env c room role language audioData s) =
            [Emit (ToRoom room) (Ev_processing_status ''transcribing'' role None),
             Call_transcribeOnce (or_else audioData []) (or_else language (s_language info)),
             Emit (ToRoom room) (Ev_processing_status ''error'' None (Some ''No speech detected''))]"
    by (simp add: audio_message_srv_def Let_def)
next
  assume a: "transcribeOnce env (or_else audioData [])
             (if role = Some ''guest'' then or_else language (s_language info) else ''en-US'') = Inr r'
          \<and> blank_transcript r'"
  then have "trim (or_else (transcript r') []) = []"
    using blank_transcript_p0 [of r'] by blast
  with a assms show "snd (audio_message_p0 env c room role language audioData s) =
            [Emit (ToRoom room) (Ev_processing_status ''transcribing'' role None),
             Call_transcribeOnce (or_else audioData [])
               (if role = Some ''guest'' then or_else language (s_language info) else ''en-US''),
             Emit (ToRoom room) (Ev_processing_status ''error'' None (Some ''No speech detected''))]"
    by (simp add: audio_message_p0_def Let_def)
qed

theorem empty_transcript_stops_pipeline_witness:
  "userRoles lobby_srv ''g1''
     = Some \<lparr>s_room = Some ''R'', s_role = Some ''guest'', s_language = ''bn-IN''\<rparr>
   \<and> transcribeOnce silence ''AAAA'' ''bn-IN'' = Inr \<lparr>transcript = Some [CHR 0x20, CHR 0xA0], confidence = None\<rparr>
   \<and> blank_transcript \<lparr>transcript = Some [CHR 0x20, CHR 0xA0], confidence = None\<rparr>
   \<and> snd (audio_message_srv silence ''g1'' (Some ''R'') (Some ''guest'') None (Some ''AAAA'') lobby_srv) =
       [Emit (ToRoom (Some ''R'')) (Ev_processing_status ''transcribing'' (Some ''guest'') None),
        Call_transcribeOnce ''AAAA'' ''bn-IN'',
        Emit (ToRoom (Some ''R'')) (Ev_processing_status ''error'' None (Some ''No speech detected''))]
   \<and> snd (audio_message_p0 silence ''g1'' (Some ''R'') (Some ''guest'') None (Some ''AAAA'') lobby_srv) =
       [Emit (ToRoom (Some ''R'')) (Ev_processing_status ''transcribing'' (Some ''guest'') None),
        Call_transcribeOnce ''AAAA'' ''bn-IN'',
        Emit (ToRoom (Some ''R'')) (Ev_processing_status ''error'' None (Some ''No speech detected''))]"
proof -
  have u: "userRoles lobby_srv ''g1''
     = Some \<lparr>s_room = Some ''R'', s_role = Some ''guest'', s_language = ''bn-IN''\<rparr>"
    by (simp add: lobby_srv_roles)
  have r: "s_room \<lparr>s_room = Some ''R'', s_role = Some ''guest'', s_language = ''bn-IN''\<rparr> = Some ''R''"
    by simp
  have t: "transcribeOnce silence ''AAAA'' ''bn-IN'' = Inr \<lparr>transcript = Some [CHR 0x20, CHR 0xA0], confidence = None\<rparr>"
    by (simp add: silence_def quiet_def)
  have b: "blank_transcript \<lparr>transcript = Some [CHR 0x20, CHR 0xA0], confidence = None\<rparr>"
    by (simp add: blank_transcript_def trim_def is_space_def)
  show ?thesis
    using u t b empty_transcript_stops_pipeline [OF u r, of silence "Some ''AAAA''" None
        "\<lparr>transcript = Some [CHR 0x20, CHR 0xA0], confidence = None\<rparr>" "Some ''guest''"
        "\<lparr>transcript = Some [CHR 0x20, CHR 0xA0], confidence = None\<rparr>"]
    by (simp add: or_else_def)
qed

section \<open>Deferred cleanup of rooms\<close>

lemma emptied_rooms:
  "activeRooms emptied =
     [Some ''R'' \<mapsto> \<lparr>hotelName = ''Unknown Hotel'', createdAt = 10, users = [],
                     guestLanguage = None\<rparr>]"
  by (simp add: emptied_def disconnect_def lobby_p0_rooms lobby_p0_roles lobby_p0_timers
        users_delete_def Let_def)

lemma emptied_roles: "userRoles emptied = Map.empty"
  by (simp add: emptied_def disconnect_def lobby_p0_rooms lobby_p0_roles lobby_p0_timers
        users_delete_def Let_def fun_eq_iff)

lemma emptied_timers: "timers emptied = [(300040, Some ''R'')]"
  by (simp add: emptied_def disconnect_def lobby_p0_rooms lobby_p0_roles lobby_p0_timers
        users_delete_def Let_def cleanup_delay_def)

lemma rejoined_rooms:
  "activeRooms rejoined =
     [Some ''R'' \<mapsto> \<lparr>hotelName = ''Unknown Hotel'', createdAt = 10, users = [''g1''],
                     guestLanguage = Some ''hi-IN''\<rparr>]"
  by (simp add: rejoined_def join_defs emptied_rooms emptied_roles)

lemma rejoined_timers: "timers rejoined = [(300040, Some ''R'')]"
  by (simp add: rejoined_def join_defs emptied_timers)

lemma disconnect_dom: "dom (activeRooms (fst (disconnect now c s))) = dom (activeRooms s)"
  by (auto simp: disconnect_def Let_def split: option.splits)

lemma disconnect_schedules:
  assumes "userRoles s c = Some info" and "activeRooms s (s_room info) \<noteq> None"
    and "members_of (fst (disconnect now c s)) (s_room info) = []"
  shows "timers (fst (disconnect now c s)) = timers s @ [(now + 5 * 60 * 1000, s_room info)]"
  using assms
  by (auto simp: disconnect_def Let_def members_of_def cleanup_delay_def
        split: option.splits if_splits)

lemma cleanup_room_rooms:
  "activeRooms (cleanup_room room s) =
     (if activeRooms s room \<noteq> None \<and> members_of s room = []
      then (activeRooms s)(room := None) else activeRooms s)"
  by (auto simp: cleanup_room_def members_of_def split: option.splits)

lemma cleanup_room_at:
  "activeRooms (cleanup_room r s) room =
     (if r = room \<and> members_of s room = [] then None else activeRooms s room)"
  by (auto simp: cleanup_room_def members_of_def split: option.splits)

lemma members_of_cleanup: "members_of (cleanup_room r s) room = members_of s room"
  by (auto simp: cleanup_room_def members_of_def split: option.splits)

lemma fold_cleanup_at:
  "activeRooms (foldl (\<lambda>s' t. cleanup_room (snd t) s') s ts) room =
     (if room \<in> snd ` set ts \<and> members_of s room = [] then None else activeRooms s room)"
proof (induction ts arbitrary: s)
  case Nil
  then show ?case by simp
next
  case (Cons t ts)
  show ?case
    by (simp add: Cons.IH members_of_cleanup cleanup_room_at) (auto simp: members_of_def)
qed

lemma run_timers_at:
  "activeRooms (run_timers t s) room =
     (if (\<exists>due. (due, room) \<in> set (timers s) \<and> due \<le> t) \<and> members_of s room = []
      then None else activeRooms s room)"
proof -
  have "room \<in> snd ` set (filter (\<lambda>x. fst x \<le> t) (timers s))
        \<longleftrightarrow> (\<exists>due. (due, room) \<in> set (timers s) \<and> due \<le> t)"
    by force
  then show ?thesis
    unfolding run_timers_def by (auto simp: fold_cleanup_at members_of_def)
qed

lemma join_srv_member:
  "c \<in> set (members_of (fst (join_room_srv now c room role language s)) room)"
  by (simp add: join_room_srv_def Let_def members_of_def users_add_def)

lemma join_p0_member:
  "truthy room \<and> truthy role \<Longrightarrow>
   c \<in> set (members_of (fst (join_room_p0 now c room role language s)) room)"
  by (simp add: join_room_p0_def Let_def members_of_def users_add_def)

lemma moved_away_rooms:
  "activeRooms moved_away =
     [Some ''R'' \<mapsto> \<lparr>hotelName = ''Unknown Hotel'', createdAt = 10, users = [],
                     guestLanguage = None\<rparr>,
      Some ''S'' \<mapsto> \<lparr>hotelName = ''Unknown Hotel'', createdAt = 50, users = [''r1''],
                     guestLanguage = None\<rparr>]"
  by (simp add: moved_away_def guest_left_p0_def disconnect_def lobby_p0_rooms lobby_p0_roles
        join_defs)

lemma join_srv_dom:
  "dom (activeRooms (fst (join_room_srv now c room role language s)))
     = insert room (dom (activeRooms s))"
  by (auto simp: join_room_srv_def Let_def leave_previous_def split: option.splits if_splits)

lemma join_p0_dom:
  "dom (activeRooms (fst (join_room_p0 now c room role language s)))
     = (if truthy room \<and> truthy role then insert room (dom (activeRooms s))
        else dom (activeRooms s))"
  by (auto simp: join_room_p0_def Let_def leave_previous_def split: option.splits if_splits)

lemma join_timers:
  "timers (fst (join_room_srv now c room role language s)) = timers s"
  "timers (fst (join_room_p0 now c room role language s)) = timers s"
  by (simp_all add: join_room_srv_def join_room_p0_def Let_def)

text \<open>
  Claim C3. A member set becomes empty in two ways: its last member disconnects, or its
  last member joins another room (\<^verbatim>\<open>leave previous\<close> in \<^verbatim>\<open>join_room\<close>). Neither deletes a
  room. (1) \<^verbatim>\<open>disconnect\<close> deletes no room: the Room Store has the same keys after it,
  whatever the member set has become. (2) When the member set of the session's room is
  empty after the disconnect, a cleanup for that room is scheduled, due
  \<open>5 * 60 * 1000\<close> milliseconds later. (3) The callback deletes its room if and only
  if the room is in the store and has no member when it runs. (4) In the timer phase at
  clock \<open>t\<close>, a room is deleted if and only if one of its cleanups is due at \<open>t\<close> or
  earlier and the room has no member then; so no cleanup acts before its delay has
  passed, and a second cleanup for the same room changes nothing. (5) A \<^verbatim>\<open>join_room\<close>
  makes the connection a member, so after a rejoin the callback leaves the room.
  (6) \<^verbatim>\<open>join_room\<close> deletes no room either, in both servers: the keys after it are the keys
  before it and the room joined; and it schedules and cancels nothing.
\<close>

theorem room_deleted_only_by_deferred_cleanup:
  "dom (activeRooms (fst (disconnect now c s))) = dom (activeRooms s)
   \<and> (userRoles s c = Some info \<and> activeRooms s (s_room info) \<noteq> None
        \<and> members_of (fst (disconnect now c s)) (s_room info) = []
      \<longrightarrow> timers (fst (disconnect now c s)) = timers s @ [(now + 5 * 60 * 1000, s_room info)])
   \<and> activeRooms (cleanup_room room s) =
       (if activeRooms s room \<noteq> None \<and> members_of s room = []
        then (activeRooms s)(room := None) else activeRooms s)
   \<and> activeRooms (run_timers t s) room =
       (if (\<exists>due. (due, room) \<in> set (timers s) \<and> due \<le> t) \<and> members_of s room = []
        then None else activeRooms s room)
   \<and> c' \<in> set (members_of (fst (join_room_srv now' c' room role language s)) room)
   \<and> (truthy room \<and> truthy role
      \<longrightarrow> c' \<in> set (members_of (fst (join_room_p0 now' c' room role language s)) room))
   \<and> dom (activeRooms (fst (join_room_srv now' c' room role language s)))
       = insert room (dom (activeRooms s))
   \<and> dom (activeRooms (fst (join_room_p0 now' c' room role language s)))
       = (if truthy room \<and> truthy role then insert room (dom (activeRooms s))
          else dom (activeRooms s))
   \<and> timers (fst (join_room_srv now' c' room role language s)) = timers s
   \<and> timers (fst (join_room_p0 now' c' room role language s)) = timers s"
  using disconnect_dom [of now c s] disconnect_schedules [of s c info now]
    cleanup_room_rooms [of room s] run_timers_at [of t s room]
    join_srv_member [of c' now' room role language s]
    join_p0_member [of room role c' now' language s]
    join_srv_dom [of now' c' room role language s]
    join_p0_dom [of now' c' room role language s]
    join_timers [of now' c' room role language s]
  by blast

theorem room_deleted_only_by_deferred_cleanup_witness:
  "userRoles (fst (disconnect 30 ''g1'' lobby_p0)) ''r1''
     = Some \<lparr>s_room = Some ''R'', s_role = Some ''receptionist'', s_language = ''en-US''\<rparr>
   \<and> emptied = fst (disconnect 40 ''r1'' (fst (disconnect 30 ''g1'' lobby_p0)))
   \<and> members_of emptied (Some ''R'') = []
   \<and> dom (activeRooms emptied) = {Some ''R''}
   \<and> timers emptied = timers (fst (disconnect 30 ''g1'' lobby_p0)) @ [(300040, Some ''R'')]
   \<and> activeRooms (run_timers 300029 emptied) (Some ''R'') = activeRooms emptied (Some ''R'')
   \<and> activeRooms (run_timers 300040 emptied) (Some ''R'') = None
   \<and> activeRooms (cleanup_room (Some ''R'') emptied) = Map.empty
   \<and> truthy (Some ''R'') \<and> truthy (Some ''guest'') \<and> truthy (Some ''S'')
   \<and> truthy (Some ''receptionist'')
   \<and> ''g1'' \<in> set (members_of rejoined (Some ''R''))
   \<and> activeRooms (run_timers 300040 rejoined) (Some ''R'') = activeRooms rejoined (Some ''R'')
   \<and> members_of guest_left_p0 (Some ''R'') = [''r1'']
   \<and> moved_away
       = fst (join_room_p0 50 ''r1'' (Some ''S'') (Some ''receptionist'') None guest_left_p0)
   \<and> members_of moved_away (Some ''R'') = []
   \<and> dom (activeRooms moved_away) = {Some ''S'', Some ''R''}
   \<and> timers moved_away = timers guest_left_p0
   \<and> members_of (fst (join_room_srv 50 ''r1'' (Some ''S'') (Some ''receptionist'') None
        guest_left_p0)) (Some ''R'') = []
   \<and> dom (activeRooms (fst (join_room_srv 50 ''r1'' (Some ''S'') (Some ''receptionist'') None
        guest_left_p0))) = {Some ''S'', Some ''R''}
   \<and> timers (fst (join_room_srv 50 ''r1'' (Some ''S'') (Some ''receptionist'') None guest_left_p0))
       = timers guest_left_p0"
proof -
  let ?s1 = "fst (disconnect 30 ''g1'' lobby_p0)"
  let ?i = "\<lparr>s_room = Some ''R'', s_role = Some ''receptionist'', s_language = ''en-US''\<rparr>"
  have u: "userRoles ?s1 ''r1'' = Some ?i"
    by (simp add: disconnect_def lobby_p0_rooms lobby_p0_roles Let_def)
  have r: "activeRooms ?s1 (Some ''R'') \<noteq> None"
    by (simp add: disconnect_def lobby_p0_rooms lobby_p0_roles Let_def)
  have m: "members_of emptied (Some ''R'') = []"
    by (simp add: members_of_def emptied_rooms)
  have d: "dom (activeRooms ?s1) = {Some ''R''}"
    using disconnect_dom [of 30 "''g1''" lobby_p0] by (simp add: lobby_p0_rooms)
  have tr: "truthy (Some ''R'') \<and> truthy (Some ''guest'') \<and> truthy (Some ''S'')
      \<and> truthy (Some ''receptionist'')"
    by (simp add: truthy_def)
  have mr: "members_of rejoined (Some ''R'') = [''g1'']"
    by (simp add: members_of_def rejoined_rooms)
  have mg: "members_of guest_left_p0 (Some ''R'') = [''r1'']"
    by (simp add: members_of_def guest_left_p0_rooms)
  have mm: "members_of moved_away (Some ''R'') = []"
    by (simp add: members_of_def moved_away_rooms)
  have ms: "members_of (fst (join_room_srv 50 ''r1'' (Some ''S'') (Some ''receptionist'') None
        guest_left_p0)) (Some ''R'') = []"
    by (simp add: members_of_def guest_left_p0_rooms guest_left_p0_roles join_defs)
  have dg: "dom (activeRooms guest_left_p0) = {Some ''R''}"
    by (simp add: guest_left_p0_rooms)
  note at_s1 = room_deleted_only_by_deferred_cleanup [of 40 "''r1''" ?s1 ?i "Some ''R''" 0
      "''g1''" 100 "Some ''guest''" None, folded emptied_def]
  note early = room_deleted_only_by_deferred_cleanup [of 40 "''r1''" emptied ?i "Some ''R''" 300029
      "''g1''" 100 "Some ''guest''" None, folded rejoined_def]
  note due = room_deleted_only_by_deferred_cleanup [of 40 "''r1''" emptied ?i "Some ''R''" 300040
      "''g1''" 100 "Some ''guest''" None, folded rejoined_def]
  note after_rejoin = room_deleted_only_by_deferred_cleanup [of 40 "''r1''" rejoined ?i
      "Some ''R''" 300040 "''g1''" 100 "Some ''guest''" None]
  note moving = room_deleted_only_by_deferred_cleanup [of 40 "''r1''" guest_left_p0 ?i
      "Some ''S''" 0 "''r1''" 50 "Some ''receptionist''" None, folded moved_away_def]
  have 1: "dom (activeRooms emptied) = {Some ''R''}"
    using at_s1 d by simp
  have 2: "timers emptied = timers ?s1 @ [(300040, Some ''R'')]"
    using at_s1 u r m by simp
  have 3: "activeRooms (run_timers 300029 emptied) (Some ''R'') = activeRooms emptied (Some ''R'')"
    using early by (simp add: emptied_timers)
  have 4: "activeRooms (run_timers 300040 emptied) (Some ''R'') = None"
    using due m by (simp add: emptied_timers)
  have 5: "activeRooms (cleanup_room (Some ''R'') emptied) = Map.empty"
    using due m by (simp add: emptied_rooms)
  have 6: "''g1'' \<in> set (members_of rejoined (Some ''R''))"
    using due tr by simp
  have 7: "activeRooms (run_timers 300040 rejoined) (Some ''R'') = activeRooms rejoined (Some ''R'')"
    using after_rejoin mr by simp
  have 8: "dom (activeRooms moved_away) = {Some ''S'', Some ''R''}"
    "timers moved_away = timers guest_left_p0"
    using moving tr dg by simp_all
  have 9: "dom (activeRooms (fst (join_room_srv 50 ''r1'' (Some ''S'') (Some ''receptionist'') None
        guest_left_p0))) = {Some ''S'', Some ''R''}"
    "timers (fst (join_room_srv 50 ''r1'' (Some ''S'') (Some ''receptionist'') None guest_left_p0))
       = timers guest_left_p0"
    using moving dg by simp_all
  show ?thesis
    using u m 1 2 3 4 5 6 7 8 9 tr mg mm ms by (simp add: emptied_def moved_away_def)
qed

section \<open>The language stored on \<^verbatim>\<open>join_room\<close>\<close>

text \<open>
  Claim C5, as stated, fails in both servers. A join with role \<^verbatim>\<open>admin\<close> and requested
  language \<^verbatim>\<open>fr-FR\<close> stores \<^verbatim>\<open>fr-FR\<close>, not \<^verbatim>\<open>en-US\<close>, in either server; and in
  \<^verbatim>\<open>src/unnamed/part_000\<close> a receptionist who requests \<^verbatim>\<open>fr-FR\<close> is stored with \<^verbatim>\<open>fr-FR\<close>.
\<close>

theorem join_language_counterexample:
  "session_language
     (fst (join_room_srv 0 ''a1'' (Some ''R'') (Some ''admin'') (Some ''fr-FR'') init_state)) ''a1''
     = Some ''fr-FR''
   \<and> session_language
     (fst (join_room_p0 0 ''a1'' (Some ''R'') (Some ''admin'') (Some ''fr-FR'') init_state)) ''a1''
     = Some ''fr-FR''
   \<and> session_language
     (fst (join_room_p0 0 ''r1'' (Some ''R'') (Some ''receptionist'') (Some ''fr-FR'') init_state))
     ''r1'' = Some ''fr-FR''"
  by (simp add: session_language_def join_defs)

text \<open>
  Claim C5, amended. After \<^verbatim>\<open>join_room\<close> the session of the connection stores: in
  \<^verbatim>\<open>src/server.js\<close>, \<^verbatim>\<open>en-US\<close> for role \<^verbatim>\<open>receptionist\<close> whatever language is requested, and
  for every other role (\<^verbatim>\<open>guest\<close>, \<^verbatim>\<open>admin\<close>, any other) the requested language, or \<^verbatim>\<open>hi-IN\<close>
  when the event carries none; in \<^verbatim>\<open>src/unnamed/part_000\<close>, for a join that names a room
  and a role, the requested language when it is supplied and not empty, and otherwise
  \<^verbatim>\<open>en-US\<close> for role \<^verbatim>\<open>receptionist\<close> and \<^verbatim>\<open>hi-IN\<close> for every other role. A join without
  room or role changes nothing there.
\<close>

theorem join_language_by_role:
  "session_language (fst (join_room_srv now c room role language s)) c =
     Some (if role = Some ''receptionist'' then ''en-US''
           else case language of None \<Rightarrow> ''hi-IN'' | Some l \<Rightarrow> l)
   \<and> (truthy room \<and> truthy role \<longrightarrow>
        session_language (fst (join_room_p0 now c room role language s)) c =
          Some (or_else language (if role = Some ''receptionist'' then ''en-US'' else ''hi-IN'')))
   \<and> (truthy room \<and> truthy role \<or> fst (join_room_p0 now c room role language s) = s)"
  by (auto simp: session_language_def join_room_srv_def join_room_p0_def Let_def truthy_def
        or_else_def split: option.splits)

theorem join_language_by_role_witness:
  "truthy (Some ''R'') \<and> truthy (Some ''receptionist'') \<and> truthy (Some ''guest'')
   \<and> session_language
       (fst (join_room_srv 0 ''r1'' (Some ''R'') (Some ''receptionist'') (Some ''fr-FR'') init_state))
       ''r1'' = Some ''en-US''
   \<and> session_language
       (fst (join_room_srv 0 ''g1'' (Some ''R'') (Some ''guest'') None init_state)) ''g1''
       = Some ''hi-IN''
   \<and> session_language
       (fst (join_room_p0 0 ''r1'' (Some ''R'') (Some ''receptionist'') None init_state)) ''r1''
       = Some ''en-US''
   \<and> session_language
       (fst (join_room_p0 0 ''g1'' (Some ''R'') (Some ''guest'') (Some ''bn-IN'') init_state)) ''g1''
       = Some ''bn-IN''"
proof -
  have t: "truthy (Some ''R'') \<and> truthy (Some ''receptionist'') \<and> truthy (Some ''guest'')"
    by (simp add: truthy_def)
  show ?thesis
    using t
      join_language_by_role [of 0 "''r1''" "Some ''R''" "Some ''receptionist''" "Some ''fr-FR''"
        init_state]
      join_language_by_role [of 0 "''g1''" "Some ''R''" "Some ''guest''" None init_state]
      join_language_by_role [of 0 "''r1''" "Some ''R''" "Some ''receptionist''" None init_state]
      join_language_by_role [of 0 "''g1''" "Some ''R''" "Some ''guest''" "Some ''bn-IN''" init_state]
    by (simp add: or_else_def)
qed

section \<open>The direction of a translation\<close>

lemma two_guests_rooms:
  "activeRooms two_guests_srv =
     [Some ''R'' \<mapsto> \<lparr>hotelName = ''Unknown Hotel'', createdAt = 10,
                     users = [''g1'', ''g2'', ''r1''], guestLanguage = Some ''ta-IN''\<rparr>]"
  by (simp add: two_guests_srv_def join_defs)

lemma two_guests_roles:
  "userRoles two_guests_srv =
     [''g1'' \<mapsto> \<lparr>s_room = Some ''R'', s_role = Some ''guest'', s_language = ''bn-IN''\<rparr>,
      ''g2'' \<mapsto> \<lparr>s_room = Some ''R'', s_role = Some ''guest'', s_language = ''ta-IN''\<rparr>,
      ''r1'' \<mapsto> \<lparr>s_room = Some ''R'', s_role = Some ''receptionist'', s_language = ''en-US''\<rparr>]"
  by (simp add: two_guests_srv_def join_defs)

lemma one_guest_left_rooms:
  "activeRooms one_guest_left =
     [Some ''R'' \<mapsto> \<lparr>hotelName = ''Unknown Hotel'', createdAt = 10,
                     users = [''g1'', ''r1''], guestLanguage = None\<rparr>]"
  by (simp add: one_guest_left_def disconnect_def two_guests_rooms two_guests_roles
        users_delete_def Let_def)

lemma one_guest_left_roles:
  "userRoles one_guest_left =
     [''g1'' \<mapsto> \<lparr>s_room = Some ''R'', s_role = Some ''guest'', s_language = ''bn-IN''\<rparr>,
      ''r1'' \<mapsto> \<lparr>s_room = Some ''R'', s_role = Some ''receptionist'', s_language = ''en-US''\<rparr>]"
  by (simp add: one_guest_left_def disconnect_def two_guests_rooms two_guests_roles
        users_delete_def Let_def fun_eq_iff)

text \<open>
  Claim C1, as stated, fails. The handlers branch on the \<^verbatim>\<open>role\<close> field of the message,
  never on the role of the session: a connection that joined as \<^verbatim>\<open>receptionist\<close> and sends a
  message with \<^verbatim>\<open>role: 'guest'\<close> and \<^verbatim>\<open>language: 'fr-FR'\<close> has it translated from \<^verbatim>\<open>fr-FR\<close> to
  \<^verbatim>\<open>en-US\<close>, in both servers. And in \<^verbatim>\<open>src/server.js\<close> a room whose \<^verbatim>\<open>guestLanguage\<close> is
  \<^verbatim>\<open>null\<close> while a guest is still a member resolves to that guest's stored language
  (\<^verbatim>\<open>bn-IN\<close> here), not to \<^verbatim>\<open>hi-IN\<close>.
\<close>

theorem staff_direction_counterexample:
  "session_role lobby_p0 ''r1'' = Some (Some ''receptionist'')
   \<and> translate_calls (snd (text_message_p0 quiet ''r1'' (Some ''R'') (Some ''guest'')
        (Some ''fr-FR'') (Some ''Bonjour'') lobby_p0))
       = [(Some ''Bonjour'', ''fr-FR'', ''en-US'')]
   \<and> session_role lobby_srv ''r1'' = Some (Some ''receptionist'')
   \<and> translate_calls (snd (text_message_srv quiet ''r1'' (Some ''R'') (Some ''guest'')
        (Some ''fr-FR'') (Some ''Bonjour'') lobby_srv))
       = [(Some ''Bonjour'', ''fr-FR'', ''en-US'')]
   \<and> session_role one_guest_left ''r1'' = Some (Some ''receptionist'')
   \<and> resolved_guest_language one_guest_left (Some ''R'') = None
   \<and> translate_calls (snd (text_message_srv quiet ''r1'' (Some ''R'') (Some ''receptionist'')
        None (Some ''Room is ready'') one_guest_left))
       = [(Some ''Room is ready'', ''en-US'', ''bn-IN'')]"
  by (simp add: session_role_def resolved_guest_language_def lobby_p0_roles lobby_p0_rooms
        lobby_srv_roles lobby_srv_rooms one_guest_left_roles one_guest_left_rooms
        text_message_p0_def text_message_srv_def quiet_def or_else_def Let_def
        getGuestLanguageInRoom_srv_def)

lemma translate_calls_append [simp]:
  "translate_calls (xs @ ys) = translate_calls xs @ translate_calls ys"
  by (induction xs rule: translate_calls.induct) simp_all

lemma translation_events_append [simp]:
  "translation_events (xs @ ys) = translation_events xs @ translation_events ys"
  by (induction xs rule: translation_events.induct) simp_all

lemma translate_calls_catch [simp]:
  "translate_calls (catch_srv h c err s) = []" "translate_calls (catch_p0 h c err s) = []"
  by (simp_all add: catch_srv_def catch_p0_def Let_def)

lemma translation_events_catch [simp]:
  "translation_events (catch_srv h c err s) = []" "translation_events (catch_p0 h c err s) = []"
  by (simp_all add: catch_srv_def catch_p0_def Let_def)

lemma text_srv_calls:
  "translate_calls (snd (text_message_srv env c room role language text0 s)) =
     (if session_room s c = Some room
      then [(text0, if role = Some ''guest'' then or_else language (the (session_language s c))
                    else ''en-US'',
             if role = Some ''guest'' then ''en-US'' else getGuestLanguageInRoom_srv s room)]
      else [])"
  by (auto simp: text_message_srv_def session_room_def session_language_def Let_def
        split: option.splits sum.splits)

lemma text_p0_calls:
  "translate_calls (snd (text_message_p0 env c room role language text0 s)) =
     (if session_room s c = Some room
      then [(text0, if role = Some ''guest'' then or_else language (the (session_language s c))
                    else ''en-US'',
             if role = Some ''guest'' then ''en-US'' else getGuestLanguageInRoom_p0 s room)]
      else [])"
  by (auto simp: text_message_p0_def session_room_def session_language_def Let_def
        split: option.splits sum.splits)

lemma audio_srv_calls:
  "(t, src, tgt) \<in> set (translate_calls (snd (audio_message_srv env c room role language audioData s)))
   \<Longrightarrow> role \<noteq> Some ''guest''
   \<Longrightarrow> src = ''en-US'' \<and> tgt = getGuestLanguageInRoom_srv (during_stt env s) room"
  by (auto simp: audio_message_srv_def Let_def split: option.splits sum.splits if_splits)

lemma audio_p0_calls:
  "(t, src, tgt) \<in> set (translate_calls (snd (audio_message_p0 env c room role language audioData s)))
   \<Longrightarrow> role \<noteq> Some ''guest''
   \<Longrightarrow> src = ''en-US'' \<and> tgt = getGuestLanguageInRoom_p0 (during_stt env s) room"
  by (auto simp: audio_message_p0_def Let_def split: option.splits sum.splits if_splits)

lemma first_guest_language_none:
  "\<forall>c \<in> set xs. map_option s_role (roles c) \<noteq> Some (Some ''guest'')
   \<Longrightarrow> first_guest_language roles xs = ''hi-IN''"
  by (induction xs) (auto split: option.splits)

lemma guest_language_p0: "getGuestLanguageInRoom_p0 s room = or_else (resolved_guest_language s room) ''hi-IN''"
  by (simp add: getGuestLanguageInRoom_p0_def resolved_guest_language_def or_else_def
        split: option.splits)

lemma guest_language_srv_resolved:
  "truthy (resolved_guest_language s room)
   \<Longrightarrow> getGuestLanguageInRoom_srv s room = or_else (resolved_guest_language s room) ''hi-IN''"
  by (auto simp: getGuestLanguageInRoom_srv_def resolved_guest_language_def or_else_def truthy_def
        split: option.splits)

lemma guest_language_srv_default:
  "\<not> truthy (resolved_guest_language s room) \<Longrightarrow> guest_members s room = []
   \<Longrightarrow> getGuestLanguageInRoom_srv s room = ''hi-IN''"
  by (auto simp: getGuestLanguageInRoom_srv_def resolved_guest_language_def truthy_def
        guest_members_def members_of_def session_role_def filter_empty_conv
        intro!: first_guest_language_none split: option.splits)

lemma first_guest_language_filter:
  "first_guest_language roles xs =
     (case filter (\<lambda>c. map_option s_role (roles c) = Some (Some ''guest'')) xs of
        [] \<Rightarrow> ''hi-IN''
      | g # gs \<Rightarrow> or_else (map_option s_language (roles g)) ''hi-IN'')"
  by (induction xs) (auto simp: or_else_def split: option.splits)

lemma guest_language_srv_fallback:
  "\<not> truthy (resolved_guest_language s room) \<Longrightarrow> guest_members s room = g # gs
   \<Longrightarrow> getGuestLanguageInRoom_srv s room = or_else (session_language s g) ''hi-IN''"
  by (auto simp: getGuestLanguageInRoom_srv_def resolved_guest_language_def truthy_def
        guest_members_def members_of_def session_role_def session_language_def
        first_guest_language_filter split: option.splits)

text \<open>
  Claim C1, amended. For every message whose \<^verbatim>\<open>role\<close> field is not \<^verbatim>\<open>guest\<close> (so
  \<^verbatim>\<open>receptionist\<close>, \<^verbatim>\<open>admin\<close>, anything else, or no role), sent by a connection whose session
  names the declared room, the translation is called with source \<^verbatim>\<open>en-US\<close>, whatever
  language the message carries, and with the target that \<^verbatim>\<open>getGuestLanguageInRoom\<close> gives
  for the room at that moment (for audio: once the transcription has returned). That
  target is the room's resolved guest language when it has one that is not empty.
  Without one it is \<^verbatim>\<open>hi-IN\<close> in \<^verbatim>\<open>src/unnamed/part_000\<close>; in \<^verbatim>\<open>src/server.js\<close> it is the
  stored language of the first member whose session has role \<^verbatim>\<open>guest\<close> (\<^verbatim>\<open>hi-IN\<close> if that
  is empty), and \<^verbatim>\<open>hi-IN\<close> when no member is a guest.
\<close>

theorem staff_direction:
  assumes "role \<noteq> Some ''guest''"
  shows "translate_calls (snd (text_message_srv env c room role language text0 s)) =
           (if session_room s c = Some room
            then [(text0, ''en-US'', getGuestLanguageInRoom_srv s room)] else [])
    \<and> translate_calls (snd (text_message_p0 env c room role language text0 s)) =
           (if session_room s c = Some room
            then [(text0, ''en-US'', getGuestLanguageInRoom_p0 s room)] else [])
    \<and> (\<forall>call \<in> set (translate_calls (snd (audio_message_srv env c room role language audioData s))).
          fst (snd call) = ''en-US''
          \<and> snd (snd call) = getGuestLanguageInRoom_srv (during_stt env s) room)
    \<and> (\<forall>call \<in> set (translate_calls (snd (audio_message_p0 env c room role language audioData s))).
          fst (snd call) = ''en-US''
          \<and> snd (snd call) = getGuestLanguageInRoom_p0 (during_stt env s) room)
    \<and> getGuestLanguageInRoom_p0 s' room = or_else (resolved_guest_language s' room) ''hi-IN''
    \<and> (truthy (resolved_guest_language s' room) \<longrightarrow>
          getGuestLanguageInRoom_srv s' room = or_else (resolved_guest_language s' room) ''hi-IN'')
    \<and> (\<not> truthy (resolved_guest_language s' room) \<and> guest_members s' room = [] \<longrightarrow>
          getGuestLanguageInRoom_srv s' room = ''hi-IN'')
    \<and> (\<not> truthy (resolved_guest_language s' room) \<and> guest_members s' room = g # gs \<longrightarrow>
          getGuestLanguageInRoom_srv s' room = or_else (session_language s' g) ''hi-IN'')"
proof -
  have "\<forall>call \<in> set (translate_calls (snd (audio_message_srv env c room role language audioData s))).
          fst (snd call) = ''en-US''
          \<and> snd (snd call) = getGuestLanguageInRoom_srv (during_stt env s) room"
    using audio_srv_calls [OF _ assms, of _ _ _ env c room language audioData s] by auto
  moreover
  have "\<forall>call \<in> set (translate_calls (snd (audio_message_p0 env c room role language audioData s))).
          fst (snd call) = ''en-US''
          \<and> snd (snd call) = getGuestLanguageInRoom_p0 (during_stt env s) room"
    using audio_p0_calls [OF _ assms, of _ _ _ env c room language audioData s] by auto
  ultimately show ?thesis
    using assms guest_language_p0 [of s' room] guest_language_srv_resolved [of s' room]
      guest_language_srv_default [of s' room] guest_language_srv_fallback [of s' room g gs]
    by (simp add: text_srv_calls text_p0_calls)
qed

theorem staff_direction_witness:
  "Some ''receptionist'' \<noteq> Some ''guest''
   \<and> translate_calls (snd (text_message_srv quiet ''r1'' (Some ''R'') (Some ''receptionist'')
        (Some ''fr-FR'') (Some ''Room is ready'') lobby_srv))
       = [(Some ''Room is ready'', ''en-US'', ''bn-IN'')]
   \<and> translate_calls (snd (text_message_p0 quiet ''r1'' (Some ''R'') (Some ''receptionist'')
        (Some ''fr-FR'') (Some ''Room is ready'') lobby_srv))
       = [(Some ''Room is ready'', ''en-US'', ''bn-IN'')]
   \<and> translate_calls (snd (audio_message_srv quiet ''r1'' (Some ''R'') (Some ''receptionist'')
        (Some ''fr-FR'') (Some ''AAAA'') lobby_srv))
       = [(Some ''Hello'', ''en-US'', ''bn-IN'')]
   \<and> translate_calls (snd (audio_message_p0 quiet ''r1'' (Some ''R'') (Some ''receptionist'')
        (Some ''fr-FR'') (Some ''AAAA'') lobby_srv))
       = [(Some ''Hello'', ''en-US'', ''bn-IN'')]
   \<and> truthy (resolved_guest_language lobby_srv (Some ''R''))
   \<and> getGuestLanguageInRoom_srv lobby_srv (Some ''R'') = ''bn-IN''
   \<and> getGuestLanguageInRoom_p0 lobby_srv (Some ''R'') = ''bn-IN''"
proof -
  have r: "Some ''receptionist'' \<noteq> Some ''guest''"
    by simp
  note th = staff_direction [OF r, of quiet "''r1''" "Some ''R''" "Some ''fr-FR''"
      "Some ''Room is ready''" lobby_srv "Some ''AAAA''" lobby_srv "''g1''" "[]"]
  have sr: "session_room lobby_srv ''r1'' = Some (Some ''R'')"
    by (simp add: session_room_def lobby_srv_roles)
  have rg: "resolved_guest_language lobby_srv (Some ''R'') = Some ''bn-IN''"
    by (simp add: resolved_guest_language_def lobby_srv_rooms)
  have q: "during_stt quiet lobby_srv = lobby_srv"
    by (simp add: quiet_def)
  have t: "truthy (Some ''bn-IN'')"
    by (simp add: truthy_def)
  have g1: "getGuestLanguageInRoom_srv lobby_srv (Some ''R'') = ''bn-IN''"
    using th rg t by (simp add: or_else_def)
  have g2: "getGuestLanguageInRoom_p0 lobby_srv (Some ''R'') = ''bn-IN''"
    using th rg by (simp add: or_else_def)
  have a1: "\<exists>t src tgt. translate_calls (snd (audio_message_srv quiet ''r1'' (Some ''R'')
        (Some ''receptionist'') (Some ''fr-FR'') (Some ''AAAA'') lobby_srv))
       = [(Some ''Hello'', src, tgt)]"
    by (simp add: audio_message_srv_def lobby_srv_roles quiet_def Let_def truthy_def trim_def
          is_space_def or_else_def)
  have a2: "\<exists>t src tgt. translate_calls (snd (audio_message_p0 quiet ''r1'' (Some ''R'')
        (Some ''receptionist'') (Some ''fr-FR'') (Some ''AAAA'') lobby_srv))
       = [(Some ''Hello'', src, tgt)]"
    by (simp add: audio_message_p0_def lobby_srv_roles quiet_def Let_def truthy_def trim_def
          is_space_def or_else_def)
  have c1: "translate_calls (snd (audio_message_srv quiet ''r1'' (Some ''R'')
        (Some ''receptionist'') (Some ''fr-FR'') (Some ''AAAA'') lobby_srv))
       = [(Some ''Hello'', ''en-US'', ''bn-IN'')]"
    using a1 th q g1 by auto
  have c2: "translate_calls (snd (audio_message_p0 quiet ''r1'' (Some ''R'')
        (Some ''receptionist'') (Some ''fr-FR'') (Some ''AAAA'') lobby_srv))
       = [(Some ''Hello'', ''en-US'', ''bn-IN'')]"
    using a2 th q g2 by auto
  show ?thesis
    using th sr rg t g1 g2 c1 c2 by simp
qed

section \<open>A guest disconnects\<close>

text \<open>
  Claim C4, as stated, fails in \<^verbatim>\<open>src/server.js\<close>. Two guests (\<^verbatim>\<open>bn-IN\<close>, then \<^verbatim>\<open>ta-IN\<close>) and
  a receptionist are in room \<open>R\<close>; the second guest disconnects. The room's resolved
  guest language is \<^verbatim>\<open>null\<close>, and the receptionist's next message is translated to \<^verbatim>\<open>bn-IN\<close>,
  the language of the guest who is still there, not to \<^verbatim>\<open>hi-IN\<close>.
\<close>

theorem guest_disconnect_counterexample:
  "session_role two_guests_srv ''g2'' = Some (Some ''guest'')
   \<and> one_guest_left = fst (disconnect 30 ''g2'' two_guests_srv)
   \<and> resolved_guest_language one_guest_left (Some ''R'') = None
   \<and> getGuestLanguageInRoom_srv one_guest_left (Some ''R'') = ''bn-IN''
   \<and> translate_calls (snd (text_message_srv quiet ''r1'' (Some ''R'') (Some ''receptionist'')
        None (Some ''Room is ready'') one_guest_left))
       = [(Some ''Room is ready'', ''en-US'', ''bn-IN'')]"
  by (simp add: session_role_def resolved_guest_language_def two_guests_roles
        one_guest_left_def [symmetric] one_guest_left_roles one_guest_left_rooms
        text_message_srv_def quiet_def or_else_def Let_def getGuestLanguageInRoom_srv_def)

lemma disconnect_guest_resolved:
  "userRoles s c = Some info \<Longrightarrow> s_role info = Some ''guest''
   \<Longrightarrow> resolved_guest_language (fst (disconnect now c s)) (s_room info) = None"
  by (simp add: disconnect_def resolved_guest_language_def Let_def split: option.splits)

text \<open>
  Claim C4, amended. After a connection whose session role is \<^verbatim>\<open>guest\<close> disconnects, the
  resolved guest language of its room is \<^verbatim>\<open>null\<close>. A message with role \<^verbatim>\<open>receptionist\<close> sent
  in that room next is translated from \<^verbatim>\<open>en-US\<close> to \<^verbatim>\<open>hi-IN\<close> in \<^verbatim>\<open>src/unnamed/part_000\<close>; in
  \<^verbatim>\<open>src/server.js\<close> it is translated to \<^verbatim>\<open>hi-IN\<close> when no member of the room has a guest
  session any more, and otherwise to the stored language of the first such member.
\<close>

theorem guest_disconnect_resets_target:
  assumes "userRoles s c = Some info" and "s_role info = Some ''guest''"
    and "s' = fst (disconnect now c s)" and "room = s_room info"
    and "session_room s' r = Some room"
  shows "resolved_guest_language s' room = None
    \<and> getGuestLanguageInRoom_p0 s' room = ''hi-IN''
    \<and> translate_calls (snd (text_message_p0 env r room (Some ''receptionist'') language text0 s'))
        = [(text0, ''en-US'', ''hi-IN'')]
    \<and> (guest_members s' room = [] \<longrightarrow>
         getGuestLanguageInRoom_srv s' room = ''hi-IN''
         \<and> translate_calls (snd (text_message_srv env r room (Some ''receptionist'') language text0 s'))
             = [(text0, ''en-US'', ''hi-IN'')])
    \<and> (guest_members s' room = g # gs \<longrightarrow>
         getGuestLanguageInRoom_srv s' room = or_else (session_language s' g) ''hi-IN'')"
proof -
  have n: "resolved_guest_language s' room = None"
    using assms disconnect_guest_resolved [of s c info now] by simp
  then have f: "\<not> truthy (resolved_guest_language s' room)"
    by (simp add: truthy_def)
  have p: "getGuestLanguageInRoom_p0 s' room = ''hi-IN''"
    using n by (simp add: guest_language_p0 or_else_def)
  show ?thesis
    using n p f assms(5) guest_language_srv_default [of s' room]
      guest_language_srv_fallback [of s' room g gs]
    by (simp add: text_srv_calls text_p0_calls)
qed

theorem guest_disconnect_resets_target_witness:
  "userRoles lobby_p0 ''g1''
     = Some \<lparr>s_room = Some ''R'', s_role = Some ''guest'', s_language = ''bn-IN''\<rparr>
   \<and> guest_left_p0 = fst (disconnect 30 ''g1'' lobby_p0)
   \<and> session_room guest_left_p0 ''r1'' = Some (Some ''R'')
   \<and> guest_members guest_left_p0 (Some ''R'') = []
   \<and> resolved_guest_language guest_left_p0 (Some ''R'') = None
   \<and> getGuestLanguageInRoom_p0 guest_left_p0 (Some ''R'') = ''hi-IN''
   \<and> getGuestLanguageInRoom_srv guest_left_p0 (Some ''R'') = ''hi-IN''
   \<and> translate_calls (snd (text_message_p0 quiet ''r1'' (Some ''R'') (Some ''receptionist'') None
        (Some ''Room is ready'') guest_left_p0))
       = [(Some ''Room is ready'', ''en-US'', ''hi-IN'')]
   \<and> translate_calls (snd (text_message_srv quiet ''r1'' (Some ''R'') (Some ''receptionist'') None
        (Some ''Room is ready'') guest_left_p0))
       = [(Some ''Room is ready'', ''en-US'', ''hi-IN'')]"
proof -
  let ?i = "\<lparr>s_room = Some ''R'', s_role = Some ''guest'', s_language = ''bn-IN''\<rparr>"
  have u: "userRoles lobby_p0 ''g1'' = Some ?i"
    by (simp add: lobby_p0_roles)
  have g: "s_role ?i = Some ''guest''"
    by simp
  have d: "guest_left_p0 = fst (disconnect 30 ''g1'' lobby_p0)"
    by (simp add: guest_left_p0_def)
  have rm: "Some ''R'' = s_room ?i"
    by simp
  have sr: "session_room guest_left_p0 ''r1'' = Some (Some ''R'')"
    by (simp add: session_room_def guest_left_p0_roles)
  have gm: "guest_members guest_left_p0 (Some ''R'') = []"
    by (simp add: guest_members_def members_of_def session_role_def guest_left_p0_rooms
          guest_left_p0_roles)
  show ?thesis
    using u d sr gm
      guest_disconnect_resets_target [OF u g d rm sr, of quiet None "Some ''Room is ready''"
        "''g1''" "[]"]
    by simp
qed

section \<open>Membership across \<^verbatim>\<open>join_room\<close> events\<close>

text \<open>
  Claim C7 holds in \<^verbatim>\<open>src/unnamed/part_000\<close>, which refuses a join without room or role,
  and fails in \<^verbatim>\<open>src/server.js\<close>, which checks neither: there \<^verbatim>\<open>if (prev)\<close> takes a session
  whose room is the empty string (or \<^verbatim>\<open>undefined\<close>) for no session, and the connection
  is not removed from that room when it joins the next one. After the two joins the
  connection is a member of both rooms, while its session names the second.
\<close>

theorem join_leaves_member_behind_srv:
  "members_of stray_srv (Some '''') = [''c1'']
   \<and> members_of stray_srv (Some ''B'') = [''c1'']
   \<and> session_room stray_srv ''c1'' = Some (Some ''B'')
   \<and> members_of stray_unnamed_srv None = [''c1'']
   \<and> members_of stray_unnamed_srv (Some ''B'') = [''c1'']
   \<and> session_room stray_unnamed_srv ''c1'' = Some (Some ''B'')
   \<and> members_of stray_p0 (Some '''') = []
   \<and> members_of stray_p0 (Some ''B'') = [''c1'']
   \<and> session_room stray_p0 ''c1'' = Some (Some ''B'')"
  by (simp add: stray_srv_def stray_unnamed_srv_def stray_p0_def members_of_def
        session_room_def join_defs)

lemma leave_previous_at:
  "leave_previous c s r =
     (case activeRooms s r of
        None \<Rightarrow> None
      | Some rd \<Rightarrow>
          if session_room s c = Some r \<and> truthy r
          then Some (rd\<lparr>users := users_delete c (users rd)\<rparr>) else Some rd)"
  by (auto simp: leave_previous_def session_room_def Let_def truthy_def split: option.splits)

lemma join_consistent:
  assumes mc0: "members_consistent s" and sh0: "sessions_have_rooms s" and tr: "truthy room"
    and sess: "\<And>x. session_room s' x = (if x = c then Some room else session_room s x)"
    and rooms: "\<And>r. r \<noteq> room \<Longrightarrow> activeRooms s' r = leave_previous c s r"
    and here: "\<exists>rd. activeRooms s' room = Some rd
      \<and> set (users rd) = insert c (case leave_previous c s room of None \<Rightarrow> {}
                                     | Some r0 \<Rightarrow> set (users r0))"
  shows "members_consistent s' \<and> sessions_have_rooms s'"
proof -
  have mc: "\<And>r rd. activeRooms s r = Some rd \<Longrightarrow> set (users rd) = {x. session_room s x = Some r}"
    using mc0 by (simp add: members_consistent_def)
  have sh: "\<And>x r. session_room s x = Some r \<Longrightarrow> truthy r \<and> activeRooms s r \<noteq> None"
    using sh0 by (auto simp: sessions_have_rooms_def session_room_def)
  have "members_consistent s'"
    unfolding members_consistent_def
  proof (intro allI impI)
    fix r rd
    assume a: "activeRooms s' r = Some rd"
    show "set (users rd) = {x. session_room s' x = Some r}"
    proof (cases "r = room")
      case True
      show ?thesis
      proof (cases "activeRooms s room")
        case None
        then have "leave_previous c s room = None"
          by (simp add: leave_previous_at)
        moreover have "\<And>x. session_room s x \<noteq> Some room"
          using None sh by blast
        ultimately show ?thesis
          using here a True by (auto simp: sess)
      next
        case (Some rd0)
        then show ?thesis
          using here a True mc [OF Some]
          by (auto simp: sess leave_previous_at users_delete_def)
      qed
    next
      case False
      then have l: "leave_previous c s r = Some rd"
        using a rooms by simp
      then obtain rd0 where rd0: "activeRooms s r = Some rd0"
        by (auto simp: leave_previous_at split: option.splits)
      show ?thesis
        using l rd0 mc [OF rd0] False sh
        by (auto simp: sess leave_previous_at users_delete_def split: if_splits)
    qed
  qed
  moreover have "sessions_have_rooms s'"
    unfolding sessions_have_rooms_def
  proof (intro allI impI)
    fix x i
    assume a: "userRoles s' x = Some i"
    then have "session_room s' x = Some (s_room i)"
      by (simp add: session_room_def)
    then have "(x = c \<and> s_room i = room) \<or> (session_room s x = Some (s_room i))"
      by (auto simp: sess split: if_splits)
    then show "truthy (s_room i) \<and> activeRooms s' (s_room i) \<noteq> None"
    proof
      assume "x = c \<and> s_room i = room"
      then show ?thesis using tr here by auto
    next
      assume "session_room s x = Some (s_room i)"
      then have "truthy (s_room i) \<and> activeRooms s (s_room i) \<noteq> None"
        using sh by blast
      then show ?thesis
        using here rooms [of "s_room i"]
        by (cases "s_room i = room") (auto simp: leave_previous_at split: option.splits)
    qed
  qed
  ultimately show ?thesis by simp
qed

text \<open>
  In \<^verbatim>\<open>src/unnamed/part_000\<close> every \<^verbatim>\<open>join_room\<close> keeps the two stores consistent, so they
  are consistent after any sequence of joins, and no connection is a member of two rooms.
\<close>

lemma join_p0_consistent:
  assumes "members_consistent s" and "sessions_have_rooms s"
  shows "members_consistent (fst (join_room_p0 now c room role language s))
         \<and> sessions_have_rooms (fst (join_room_p0 now c room role language s))"
proof (cases "truthy room \<and> truthy role")
  case False
  then show ?thesis using assms by (auto simp: join_room_p0_def)
next
  case True
  let ?s' = "fst (join_room_p0 now c room role language s)"
  have sess: "\<And>x. session_room ?s' x = (if x = c then Some room else session_room s x)"
    using True by (simp add: join_room_p0_def Let_def session_room_def)
  have rooms: "\<And>r. r \<noteq> room \<Longrightarrow> activeRooms ?s' r = leave_previous c s r"
    using True by (simp add: join_room_p0_def Let_def)
  have here: "\<exists>rd. activeRooms ?s' room = Some rd
      \<and> set (users rd) = insert c (case leave_previous c s room of None \<Rightarrow> {}
                                     | Some r0 \<Rightarrow> set (users r0))"
    using True
    by (auto simp: join_room_p0_def Let_def users_add_def new_room_def split: option.splits)
  from True have "truthy room" by simp
  from join_consistent [OF assms this sess rooms here] show ?thesis .
qed

lemma run_joins_p0_consistent:
  "members_consistent s \<and> sessions_have_rooms s \<Longrightarrow>
   members_consistent (run_joins_p0 evs s) \<and> sessions_have_rooms (run_joins_p0 evs s)"
proof (induction evs arbitrary: s)
  case Nil
  then show ?case by simp
next
  case (Cons ev evs)
  obtain now c room role language where ev: "ev = Join now c room role language"
    by (cases ev)
  show ?case
    using Cons.prems join_p0_consistent [of s now c room role language]
    by (simp add: ev Cons.IH)
qed

lemma init_state_consistent: "members_consistent init_state \<and> sessions_have_rooms init_state"
  by (simp add: members_consistent_def sessions_have_rooms_def init_state_def)

lemma joins_p0_membership:
  "members_consistent (run_joins_p0 evs init_state)"
  "c \<in> set (members_of (run_joins_p0 evs init_state) a) \<Longrightarrow>
   c \<in> set (members_of (run_joins_p0 evs init_state) b) \<Longrightarrow> a = b"
proof -
  show mc: "members_consistent (run_joins_p0 evs init_state)"
    using run_joins_p0_consistent [OF init_state_consistent] by simp
  assume "c \<in> set (members_of (run_joins_p0 evs init_state) a)"
    and "c \<in> set (members_of (run_joins_p0 evs init_state) b)"
  then have "session_room (run_joins_p0 evs init_state) c = Some a"
    and "session_room (run_joins_p0 evs init_state) c = Some b"
    using mc by (auto simp: members_consistent_def members_of_def split: option.splits)
  then show "a = b" by simp
qed

text \<open>
  \<^verbatim>\<open>src/server.js\<close> keeps them consistent as long as the room of the join is a string that
  is not empty.
\<close>

lemma join_srv_consistent:
  assumes "members_consistent s" and "sessions_have_rooms s" and "truthy room"
  shows "members_consistent (fst (join_room_srv now c room role language s))
         \<and> sessions_have_rooms (fst (join_room_srv now c room role language s))"
proof -
  let ?s' = "fst (join_room_srv now c room role language s)"
  have sess: "\<And>x. session_room ?s' x = (if x = c then Some room else session_room s x)"
    by (simp add: join_room_srv_def Let_def session_room_def)
  have rooms: "\<And>r. r \<noteq> room \<Longrightarrow> activeRooms ?s' r = leave_previous c s r"
    by (simp add: join_room_srv_def Let_def)
  have here: "\<exists>rd. activeRooms ?s' room = Some rd
      \<and> set (users rd) = insert c (case leave_previous c s room of None \<Rightarrow> {}
                                     | Some r0 \<Rightarrow> set (users r0))"
    by (auto simp: join_room_srv_def Let_def users_add_def new_room_def split: option.splits)
  from join_consistent [OF assms sess rooms here] show ?thesis .
qed

section \<open>The terminal status of a message attempt\<close>











section \<open>The confidence of a translation event\<close>

lemma text_confidence:
  "m \<in> set (translation_events (snd (text_message_srv env c room role language text0 s)))
   \<Longrightarrow> m_confidence m = 1"
  "m \<in> set (translation_events (snd (text_message_p0 env c room role language text0 s)))
   \<Longrightarrow> m_confidence m = 1"
  by (auto simp: text_message_srv_def text_message_p0_def Let_def
        split: option.splits sum.splits if_splits)

lemma audio_srv_confidence:
  "m \<in> set (translation_events (snd (audio_message_srv env c room role language audioData s)))
   \<Longrightarrow> \<exists>r. transcribeOnce env (or_else audioData [])
              (or_else language (the (session_language s c))) = Inr r
          \<and> m_confidence m = (case confidence r of None \<Rightarrow> 0.95 | Some x \<Rightarrow> x)"
  by (auto simp: audio_message_srv_def Let_def session_language_def nullish_or_def
        split: option.splits sum.splits if_splits)

lemma audio_p0_confidence:
  "m \<in> set (translation_events (snd (audio_message_p0 env c room role language audioData s)))
   \<Longrightarrow> \<exists>r. transcribeOnce env (or_else audioData [])
              (if role = Some ''guest'' then or_else language (the (session_language s c))
               else ''en-US'') = Inr r
          \<and> m_confidence m = (case confidence r of None \<Rightarrow> 0.95
                               | Some x \<Rightarrow> if x = 0 then 0.95 else x)"
  by (auto simp: audio_message_p0_def Let_def session_language_def falsy_or_def
        split: option.splits sum.splits if_splits)

lemma confidence_zero_kept_srv:
  "map m_confidence (translation_events (snd (audio_message_srv unsure ''g1'' (Some ''R'')
     (Some ''guest'') None (Some ''AAAA'') lobby_p0))) = [0]"
  by (simp add: audio_message_srv_def lobby_p0_roles unsure_def quiet_def
        nullish_or_def or_else_def truthy_def trim_def is_space_def Let_def)

text \<open>
  Claim C9 holds for text messages in both servers and for audio messages in
  \<^verbatim>\<open>src/server.js\<close>, which writes \<^verbatim>\<open>transcription.confidence ?? 0.95\<close> (the lemmas
  above). \<^verbatim>\<open>src/unnamed/part_000\<close> writes \<^verbatim>\<open>stt.confidence || 0.95\<close>: a transcription
  result that carries the confidence 0 is broadcast with confidence 0.95 there.
\<close>

theorem confidence_zero_replaced_p0:
  "transcribeOnce unsure ''AAAA'' ''bn-IN'' = Inr \<lparr>transcript = Some ''Hello'', confidence = Some 0\<rparr>
   \<and> map m_confidence (translation_events (snd (audio_message_p0 unsure ''g1'' (Some ''R'')
        (Some ''guest'') None (Some ''AAAA'') lobby_p0))) = [0.95]"
  by (simp add: audio_message_p0_def lobby_p0_roles unsure_def quiet_def
        falsy_or_def or_else_def trim_def is_space_def Let_def)

end
